theory Spec2Isabelle
  imports Main
begin

section \<open>Python values and exceptions\<close>

text \<open>
  A webhook payload is what \<^verbatim>\<open>json.loads\<close> returns: \<^verbatim>\<open>None\<close>, a bool, an int, a str, a
  list or a dict with string keys. A dict keeps its entries in insertion order and has
  one entry per key; it is an association list, looked up with \<open>map_of\<close>. Strings are
  lists of 8-bit characters (the code points U+0000 to U+00FF of a Python str, the bytes
  of a Python bytes). Floating-point numbers are not part of the model.
\<close>

datatype json =
    JNull
  | JBool bool
  | JInt int
  | JStr string
  | JList "json list"
  | JObj "(string \<times> json) list"

type_synonym bytes = string

text \<open>
  The exceptions the code can raise. \<^verbatim>\<open>json.JSONDecodeError\<close> and
  \<^verbatim>\<open>UnicodeDecodeError\<close> are subclasses of \<^verbatim>\<open>ValueError\<close>; \<open>str_of_exc\<close> is what
  \<^verbatim>\<open>str(e)\<close> shows of the ones the HTTP layer reports.
\<close>

datatype py_exc =
    KeyError string
  | TypeError
  | AttributeError
  | ValueError string
  | JSONDecodeError string
  | UnicodeDecodeError string
  | NotImplementedError string
  | OtherError string

fun is_ValueError :: "py_exc \<Rightarrow> bool" where
  "is_ValueError (ValueError m) = True"
| "is_ValueError (JSONDecodeError m) = True"
| "is_ValueError (UnicodeDecodeError m) = True"
| "is_ValueError e = False"

fun str_of_exc :: "py_exc \<Rightarrow> string" where
  "str_of_exc (ValueError m) = m"
| "str_of_exc (JSONDecodeError m) = m"
| "str_of_exc (UnicodeDecodeError m) = m"
| "str_of_exc (NotImplementedError m) = m"
| "str_of_exc (OtherError m) = m"
| "str_of_exc (KeyError k) = [CHR 0x27] @ k @ [CHR 0x27]"
| "str_of_exc TypeError = []"
| "str_of_exc AttributeError = []"

text \<open>Sequencing: the first exception raised ends the computation.\<close>

definition bindE :: "py_exc + 'a \<Rightarrow> ('a \<Rightarrow> py_exc + 'b) \<Rightarrow> py_exc + 'b" where
  "bindE m f = (case m of Inl e \<Rightarrow> Inl e | Inr v \<Rightarrow> f v)"

fun mapE :: "('a \<Rightarrow> py_exc + 'b) \<Rightarrow> 'a list \<Rightarrow> py_exc + 'b list" where
  "mapE f [] = Inr []"
| "mapE f (x # xs) = bindE (f x) (\<lambda>y. bindE (mapE f xs) (\<lambda>ys. Inr (y # ys)))"

text \<open>\<^verbatim>\<open>obj[key]\<close> with a string key: \<^verbatim>\<open>KeyError\<close> on a dict without the key,
  \<^verbatim>\<open>TypeError\<close> on every value that is not a dict.\<close>

fun py_index :: "json \<Rightarrow> string \<Rightarrow> py_exc + json" where
  "py_index (JObj kvs) k = (case map_of kvs k of None \<Rightarrow> Inl (KeyError k) | Some v \<Rightarrow> Inr v)"
| "py_index v k = Inl TypeError"

text \<open>\<^verbatim>\<open>obj.get(key, default)\<close>: only a dict has the method.\<close>

fun py_get :: "json \<Rightarrow> string \<Rightarrow> json \<Rightarrow> py_exc + json" where
  "py_get (JObj kvs) k d = Inr (case map_of kvs k of None \<Rightarrow> d | Some v \<Rightarrow> v)"
| "py_get v k d = Inl AttributeError"

text \<open>Truth value of a value in a condition.\<close>

fun py_truthy :: "json \<Rightarrow> bool" where
  "py_truthy JNull = False"
| "py_truthy (JBool b) = b"
| "py_truthy (JInt n) = (n \<noteq> 0)"
| "py_truthy (JStr s) = (s \<noteq> [])"
| "py_truthy (JList xs) = (xs \<noteq> [])"
| "py_truthy (JObj kvs) = (kvs \<noteq> [])"

text \<open>\<^verbatim>\<open>for x in v\<close>: the elements of a list, the characters of a string, the keys of a
  dict; \<^verbatim>\<open>TypeError\<close> on the values that are not iterable.\<close>

fun py_iter :: "json \<Rightarrow> py_exc + json list" where
  "py_iter (JList xs) = Inr xs"
| "py_iter (JStr s) = Inr (map (\<lambda>c. JStr [c]) s)"
| "py_iter (JObj kvs) = Inr (map (\<lambda>kv. JStr (fst kv)) kvs)"
| "py_iter v = Inl TypeError"

fun is_substring :: "string \<Rightarrow> string \<Rightarrow> bool" where
  "is_substring xs [] = (xs = [])"
| "is_substring xs (y # ys) = (take (length xs) (y # ys) = xs \<or> is_substring xs ys)"

text \<open>\<^verbatim>\<open>key in v\<close> for a string \<open>key\<close>: a key of a dict, an element of a list, a
  substring of a string; \<^verbatim>\<open>TypeError\<close> otherwise.\<close>

fun py_contains :: "string \<Rightarrow> json \<Rightarrow> py_exc + bool" where
  "py_contains k (JObj kvs) = Inr (k \<in> set (map fst kvs))"
| "py_contains k (JList xs) = Inr (JStr k \<in> set xs)"
| "py_contains k (JStr s) = Inr (is_substring k s)"
| "py_contains k v = Inl TypeError"

text \<open>
  What the code takes from the interpreter and its standard library: the builtin
  \<^verbatim>\<open>str()\<close> on a decoded value, the clock reading
  \<^verbatim>\<open>datetime.utcnow().isoformat()\<close>, \<^verbatim>\<open>hmac.new(key, msg, hashlib.sha256).hexdigest()\<close>
  and \<^verbatim>\<open>json.loads\<close>. Every function below takes them as one argument, and every
  theorem holds for all of them.
\<close>

record runtime =
  str_builtin :: "json \<Rightarrow> py_exc + string"
  utcnow_isoformat :: string
  hmac_sha256_hexdigest :: "bytes \<Rightarrow> bytes \<Rightarrow> string"
  json_loads :: "bytes \<Rightarrow> py_exc + json"

section \<open>The event schema (event_bus/schema.py)\<close>

datatype EventType =
    CODE_PUSH | CODE_COMMIT
  | PR_OPENED | PR_CLOSED | PR_MERGED | PR_REOPENED | PR_UPDATED | PR_REVIEWED
  | PR_REVIEW_REQUESTED | PR_COMMENT
  | ISSUE_OPENED | ISSUE_CLOSED | ISSUE_REOPENED | ISSUE_UPDATED | ISSUE_COMMENT
  | RELEASE_PUBLISHED | RELEASE_CREATED | RELEASE_DELETED
  | DEPLOYMENT_STARTED | DEPLOYMENT_COMPLETED | DEPLOYMENT_FAILED

fun EventType_value :: "EventType \<Rightarrow> string" where
  "EventType_value CODE_PUSH = ''code.push''"
| "EventType_value CODE_COMMIT = ''code.commit''"
| "EventType_value PR_OPENED = ''pr.opened''"
| "EventType_value PR_CLOSED = ''pr.closed''"
| "EventType_value PR_MERGED = ''pr.merged''"
| "EventType_value PR_REOPENED = ''pr.reopened''"
| "EventType_value PR_UPDATED = ''pr.updated''"
| "EventType_value PR_REVIEWED = ''pr.reviewed''"
| "EventType_value PR_REVIEW_REQUESTED = ''pr.review_requested''"
| "EventType_value PR_COMMENT = ''pr.comment''"
| "EventType_value ISSUE_OPENED = ''issue.opened''"
| "EventType_value ISSUE_CLOSED = ''issue.closed''"
| "EventType_value ISSUE_REOPENED = ''issue.reopened''"
| "EventType_value ISSUE_UPDATED = ''issue.updated''"
| "EventType_value ISSUE_COMMENT = ''issue.comment''"
| "EventType_value RELEASE_PUBLISHED = ''release.published''"
| "EventType_value RELEASE_CREATED = ''release.created''"
| "EventType_value RELEASE_DELETED = ''release.deleted''"
| "EventType_value DEPLOYMENT_STARTED = ''deployment.started''"
| "EventType_value DEPLOYMENT_COMPLETED = ''deployment.completed''"
| "EventType_value DEPLOYMENT_FAILED = ''deployment.failed''"

datatype ChangeType = COMMIT | FILE_ADD | FILE_MODIFY | FILE_DELETE

fun ChangeType_value :: "ChangeType \<Rightarrow> string" where
  "ChangeType_value COMMIT = ''commit''"
| "ChangeType_value FILE_ADD = ''file.add''"
| "ChangeType_value FILE_MODIFY = ''file.modify''"
| "ChangeType_value FILE_DELETE = ''file.delete''"

text \<open>
  The dataclasses. A field holds whatever value the mapper puts there (the annotations
  are not enforced), so a field filled from the payload has type \<open>json\<close>, and \<open>JNull\<close> is
  Python's \<^verbatim>\<open>None\<close>, the value of an unset optional field. The fields \<^verbatim>\<open>id\<close>,
  \<^verbatim>\<open>name\<close>, \<^verbatim>\<open>type\<close> and \<^verbatim>\<open>timestamp\<close> occur in several classes and carry the
  class as a prefix here; the metadata field \<^verbatim>\<open>before\<close> is \<open>before_sha\<close>.
\<close>

record Actor =
  actor_id :: string
  username :: json
  actor_name :: json
  email :: json
  avatar_url :: json

record Repository =
  repo_id :: string
  repo_name :: json
  full_name :: json
  owner :: json
  url :: json
  default_branch :: json

record Change =
  change_type :: ChangeType
  change_id :: json
  message :: json
  change_timestamp :: json
  author :: "Actor option"
  files_added :: json
  files_modified :: json
  files_removed :: json

record EventMetadata =
  ref :: json
  before_sha :: json
  after :: json
  created :: json
  deleted :: json
  forced :: json
  base_ref :: json
  compare_url :: json
  pr_number :: json
  pr_title :: json
  pr_state :: json
  pr_url :: json
  pr_merged :: json
  pr_draft :: json
  pr_base_ref :: json
  pr_head_ref :: json
  pr_author :: json
  issue_number :: json
  issue_title :: json
  issue_state :: json
  issue_url :: json
  issue_author :: json
  comment_id :: json
  comment_body :: json
  comment_url :: json
  review_id :: json
  review_state :: json
  review_body :: json
  review_url :: json
  release_id :: json
  release_name :: json
  release_tag :: json
  release_url :: json
  release_draft :: json
  release_prerelease :: json
  action :: json
  labels :: "json list"
  assignees :: "json list"
  custom :: "(string \<times> json) list"

record StandardEvent =
  event_id :: string
  event_type :: EventType
  source :: string
  timestamp :: string
  actor :: Actor
  repository :: Repository
  metadata :: EventMetadata
  changes :: "Change list"
  raw_payload :: json

text \<open>The field defaults of \<^verbatim>\<open>EventMetadata\<close>: every optional field \<^verbatim>\<open>None\<close>, the two
  lists and the custom dict empty.\<close>

definition EventMetadata_default :: EventMetadata where
  "EventMetadata_default = \<lparr>
     ref = JNull, before_sha = JNull, after = JNull, created = JNull, deleted = JNull,
     forced = JNull, base_ref = JNull, compare_url = JNull,
     pr_number = JNull, pr_title = JNull, pr_state = JNull, pr_url = JNull,
     pr_merged = JNull, pr_draft = JNull, pr_base_ref = JNull, pr_head_ref = JNull,
     pr_author = JNull,
     issue_number = JNull, issue_title = JNull, issue_state = JNull, issue_url = JNull,
     issue_author = JNull,
     comment_id = JNull, comment_body = JNull, comment_url = JNull,
     review_id = JNull, review_state = JNull, review_body = JNull, review_url = JNull,
     release_id = JNull, release_name = JNull, release_tag = JNull, release_url = JNull,
     release_draft = JNull, release_prerelease = JNull,
     action = JNull, labels = [], assignees = [], custom = [] \<rparr>"

section \<open>The mappers (github/mappers.py)\<close>

text \<open>Arguments are evaluated left to right, so the first missing key decides the
  exception; the definitions keep the order of the source.\<close>

definition py_index2 :: "json \<Rightarrow> string \<Rightarrow> string \<Rightarrow> py_exc + json" where
  "py_index2 v k1 k2 = bindE (py_index v k1) (\<lambda>w. py_index w k2)"

definition extract_actor :: "runtime \<Rightarrow> json \<Rightarrow> py_exc + Actor" where
  "extract_actor rt user_data =
     bindE (py_index user_data ''id'') (\<lambda>i.
     bindE (str_builtin rt i) (\<lambda>sid.
     bindE (py_index user_data ''login'') (\<lambda>login.
     bindE (py_get user_data ''name'' JNull) (\<lambda>nm.
     bindE (py_get user_data ''email'' JNull) (\<lambda>em.
     bindE (py_get user_data ''avatar_url'' JNull) (\<lambda>av.
     Inr \<lparr> actor_id = sid, username = login, actor_name = nm, email = em,
           avatar_url = av \<rparr>))))))"

definition extract_repository :: "runtime \<Rightarrow> json \<Rightarrow> py_exc + Repository" where
  "extract_repository rt repo_data =
     bindE (py_index repo_data ''id'') (\<lambda>i.
     bindE (str_builtin rt i) (\<lambda>sid.
     bindE (py_index repo_data ''name'') (\<lambda>nm.
     bindE (py_index repo_data ''full_name'') (\<lambda>fn.
     bindE (py_index2 repo_data ''owner'' ''login'') (\<lambda>ow.
     bindE (py_index repo_data ''html_url'') (\<lambda>u.
     bindE (py_get repo_data ''default_branch'' (JStr ''main'')) (\<lambda>db.
     Inr \<lparr> repo_id = sid, repo_name = nm, full_name = fn, owner = ow, url = u,
           default_branch = db \<rparr>)))))))"

text \<open>The body of the loop of \<^verbatim>\<open>map_push_event\<close>: the \<^verbatim>\<open>Change\<close> built from one
  commit.\<close>

definition commit_change :: "json \<Rightarrow> py_exc + Change" where
  "commit_change commit =
     bindE (py_index commit ''id'') (\<lambda>cid.
     bindE (py_index commit ''message'') (\<lambda>msg.
     bindE (py_index commit ''timestamp'') (\<lambda>ts.
     bindE (py_index2 commit ''author'' ''username'') (\<lambda>un.
     bindE (py_index2 commit ''author'' ''name'') (\<lambda>nm.
     bindE (py_index2 commit ''author'' ''email'') (\<lambda>em.
     bindE (py_get commit ''added'' (JList [])) (\<lambda>fa.
     bindE (py_get commit ''modified'' (JList [])) (\<lambda>fm.
     bindE (py_get commit ''removed'' (JList [])) (\<lambda>fr.
     Inr \<lparr> change_type = COMMIT, change_id = cid, message = msg, change_timestamp = ts,
           author = Some \<lparr> actor_id = [], username = un, actor_name = nm, email = em,
                           avatar_url = JNull \<rparr>,
           files_added = fa, files_modified = fm, files_removed = fr \<rparr>)))))))))"

definition map_push_event :: "runtime \<Rightarrow> json \<Rightarrow> string \<Rightarrow> py_exc + StandardEvent" where
  "map_push_event rt payload delivery_id =
     bindE (py_get payload ''commits'' (JList [])) (\<lambda>commits.
     bindE (py_iter commits) (\<lambda>cs.
     bindE (mapE commit_change cs) (\<lambda>chs.
     bindE (py_index payload ''pusher'') (\<lambda>pusher.
     bindE (extract_actor rt pusher) (\<lambda>act.
     bindE (py_index payload ''repository'') (\<lambda>repo_data.
     bindE (extract_repository rt repo_data) (\<lambda>repo.
     bindE (py_index payload ''ref'') (\<lambda>r.
     bindE (py_index payload ''before'') (\<lambda>b.
     bindE (py_index payload ''after'') (\<lambda>a.
     bindE (py_get payload ''created'' (JBool False)) (\<lambda>cr.
     bindE (py_get payload ''deleted'' (JBool False)) (\<lambda>de.
     bindE (py_get payload ''forced'' (JBool False)) (\<lambda>fo.
     bindE (py_get payload ''base_ref'' JNull) (\<lambda>br.
     bindE (py_get payload ''compare'' JNull) (\<lambda>cu.
     Inr \<lparr> event_id = delivery_id, event_type = CODE_PUSH, source = ''github'',
           timestamp = utcnow_isoformat rt, actor = act, repository = repo,
           metadata = EventMetadata_default \<lparr> ref := r, before_sha := b, after := a,
             created := cr, deleted := de, forced := fo, base_ref := br,
             compare_url := cu \<rparr>,
           changes = chs, raw_payload = payload \<rparr>)))))))))))))))"

text \<open>\<^verbatim>\<open>table.get(key, default)\<close> on a dict literal with string keys: a list or a dict
  as key is unhashable (\<^verbatim>\<open>TypeError\<close>); any other key that is not a string equals none
  of the keys.\<close>

fun dict_get :: "(string \<times> 'a) list \<Rightarrow> json \<Rightarrow> 'a \<Rightarrow> py_exc + 'a" where
  "dict_get tbl (JStr s) d = Inr (case map_of tbl s of None \<Rightarrow> d | Some v \<Rightarrow> v)"
| "dict_get tbl (JList xs) d = Inl TypeError"
| "dict_get tbl (JObj kvs) d = Inl TypeError"
| "dict_get tbl v d = Inr d"

text \<open>\<^verbatim>\<open>[x[key] for x in obj.get(field, [])]\<close>\<close>

definition names_of :: "json \<Rightarrow> string \<Rightarrow> string \<Rightarrow> py_exc + json list" where
  "names_of obj field key =
     bindE (py_get obj field (JList [])) (\<lambda>ls.
     bindE (py_iter ls) (\<lambda>xs. mapE (\<lambda>l. py_index l key) xs))"

definition map_pull_request_event ::
  "runtime \<Rightarrow> json \<Rightarrow> string \<Rightarrow> py_exc + StandardEvent" where
  "map_pull_request_event rt payload delivery_id =
     bindE (py_index payload ''pull_request'') (\<lambda>pr.
     bindE (py_index payload ''action'') (\<lambda>act.
     bindE (py_get pr ''merged'' JNull) (\<lambda>mg.
     bindE (dict_get
        [(''opened'', PR_OPENED),
         (''closed'', if py_truthy mg then PR_MERGED else PR_CLOSED),
         (''reopened'', PR_REOPENED),
         (''synchronize'', PR_UPDATED),
         (''edited'', PR_UPDATED),
         (''review_requested'', PR_REVIEW_REQUESTED)] act PR_UPDATED) (\<lambda>ty.
     bindE (py_index payload ''sender'') (\<lambda>sender.
     bindE (extract_actor rt sender) (\<lambda>actr.
     bindE (py_index payload ''repository'') (\<lambda>repo_data.
     bindE (extract_repository rt repo_data) (\<lambda>repo.
     bindE (py_index pr ''number'') (\<lambda>num.
     bindE (py_index pr ''title'') (\<lambda>ti.
     bindE (py_index pr ''state'') (\<lambda>st.
     bindE (py_index pr ''html_url'') (\<lambda>u.
     bindE (py_get pr ''merged'' (JBool False)) (\<lambda>merged.
     bindE (py_get pr ''draft'' (JBool False)) (\<lambda>draft.
     bindE (py_index2 pr ''base'' ''ref'') (\<lambda>bref.
     bindE (py_index2 pr ''head'' ''ref'') (\<lambda>href.
     bindE (py_index2 pr ''user'' ''login'') (\<lambda>au.
     bindE (names_of pr ''labels'' ''name'') (\<lambda>ls.
     Inr \<lparr> event_id = delivery_id, event_type = ty, source = ''github'',
           timestamp = utcnow_isoformat rt, actor = actr, repository = repo,
           metadata = EventMetadata_default \<lparr> pr_number := num, pr_title := ti,
             pr_state := st, pr_url := u, pr_merged := merged, pr_draft := draft,
             pr_base_ref := bref, pr_head_ref := href, pr_author := au, action := act,
             labels := ls \<rparr>,
           changes = [], raw_payload = payload \<rparr>))))))))))))))))))"

definition map_issue_event :: "runtime \<Rightarrow> json \<Rightarrow> string \<Rightarrow> py_exc + StandardEvent" where
  "map_issue_event rt payload delivery_id =
     bindE (py_index payload ''issue'') (\<lambda>issue.
     bindE (py_index payload ''action'') (\<lambda>act.
     bindE (dict_get
        [(''opened'', ISSUE_OPENED),
         (''closed'', ISSUE_CLOSED),
         (''reopened'', ISSUE_REOPENED),
         (''edited'', ISSUE_UPDATED),
         (''assigned'', ISSUE_UPDATED),
         (''labeled'', ISSUE_UPDATED)] act ISSUE_UPDATED) (\<lambda>ty.
     bindE (py_index payload ''sender'') (\<lambda>sender.
     bindE (extract_actor rt sender) (\<lambda>actr.
     bindE (py_index payload ''repository'') (\<lambda>repo_data.
     bindE (extract_repository rt repo_data) (\<lambda>repo.
     bindE (py_index issue ''number'') (\<lambda>num.
     bindE (py_index issue ''title'') (\<lambda>ti.
     bindE (py_index issue ''state'') (\<lambda>st.
     bindE (py_index issue ''html_url'') (\<lambda>u.
     bindE (py_index2 issue ''user'' ''login'') (\<lambda>au.
     bindE (names_of issue ''labels'' ''name'') (\<lambda>ls.
     bindE (names_of issue ''assignees'' ''login'') (\<lambda>asg.
     Inr \<lparr> event_id = delivery_id, event_type = ty, source = ''github'',
           timestamp = utcnow_isoformat rt, actor = actr, repository = repo,
           metadata = EventMetadata_default \<lparr> issue_number := num, issue_title := ti,
             issue_state := st, issue_url := u, issue_author := au, action := act,
             labels := ls, assignees := asg \<rparr>,
           changes = [], raw_payload = payload \<rparr>))))))))))))))"

definition map_issue_comment_event ::
  "runtime \<Rightarrow> json \<Rightarrow> string \<Rightarrow> py_exc + StandardEvent" where
  "map_issue_comment_event rt payload delivery_id =
     bindE (py_index payload ''comment'') (\<lambda>comment.
     bindE (py_index payload ''issue'') (\<lambda>issue.
     bindE (py_contains ''pull_request'' issue) (\<lambda>is_pr.
     bindE (py_index payload ''sender'') (\<lambda>sender.
     bindE (extract_actor rt sender) (\<lambda>actr.
     bindE (py_index payload ''repository'') (\<lambda>repo_data.
     bindE (extract_repository rt repo_data) (\<lambda>repo.
     bindE (py_index comment ''id'') (\<lambda>cid.
     bindE (py_index comment ''body'') (\<lambda>cb.
     bindE (py_index comment ''html_url'') (\<lambda>cu.
     bindE (py_index issue ''number'') (\<lambda>num.
     bindE (py_index issue ''title'') (\<lambda>ti.
     bindE (py_index payload ''action'') (\<lambda>act.
     Inr \<lparr> event_id = delivery_id,
           event_type = (if is_pr then PR_COMMENT else ISSUE_COMMENT),
           source = ''github'',
           timestamp = utcnow_isoformat rt, actor = actr, repository = repo,
           metadata = EventMetadata_default \<lparr> issue_number := num, issue_title := ti,
             comment_id := cid, comment_body := cb, comment_url := cu, action := act \<rparr>,
           changes = [], raw_payload = payload \<rparr>)))))))))))))"

definition map_pull_request_review_event ::
  "runtime \<Rightarrow> json \<Rightarrow> string \<Rightarrow> py_exc + StandardEvent" where
  "map_pull_request_review_event rt payload delivery_id =
     bindE (py_index payload ''review'') (\<lambda>review.
     bindE (py_index payload ''pull_request'') (\<lambda>pr.
     bindE (py_index payload ''sender'') (\<lambda>sender.
     bindE (extract_actor rt sender) (\<lambda>actr.
     bindE (py_index payload ''repository'') (\<lambda>repo_data.
     bindE (extract_repository rt repo_data) (\<lambda>repo.
     bindE (py_index review ''id'') (\<lambda>rid.
     bindE (py_index review ''state'') (\<lambda>rs.
     bindE (py_get review ''body'' (JStr [])) (\<lambda>rb.
     bindE (py_index review ''html_url'') (\<lambda>ru.
     bindE (py_index pr ''number'') (\<lambda>num.
     bindE (py_index pr ''title'') (\<lambda>ti.
     bindE (py_index payload ''action'') (\<lambda>act.
     Inr \<lparr> event_id = delivery_id, event_type = PR_REVIEWED, source = ''github'',
           timestamp = utcnow_isoformat rt, actor = actr, repository = repo,
           metadata = EventMetadata_default \<lparr> pr_number := num, pr_title := ti,
             review_id := rid, review_state := rs, review_body := rb, review_url := ru,
             action := act \<rparr>,
           changes = [], raw_payload = payload \<rparr>)))))))))))))"

definition map_release_event :: "runtime \<Rightarrow> json \<Rightarrow> string \<Rightarrow> py_exc + StandardEvent" where
  "map_release_event rt payload delivery_id =
     bindE (py_index payload ''release'') (\<lambda>release.
     bindE (py_index payload ''sender'') (\<lambda>sender.
     bindE (extract_actor rt sender) (\<lambda>actr.
     bindE (py_index payload ''repository'') (\<lambda>repo_data.
     bindE (extract_repository rt repo_data) (\<lambda>repo.
     bindE (py_index release ''id'') (\<lambda>rid.
     bindE (py_index release ''name'') (\<lambda>rn.
     bindE (py_index release ''tag_name'') (\<lambda>tg.
     bindE (py_index release ''html_url'') (\<lambda>ru.
     bindE (py_index release ''draft'') (\<lambda>dr.
     bindE (py_index release ''prerelease'') (\<lambda>pre.
     bindE (py_index payload ''action'') (\<lambda>act.
     Inr \<lparr> event_id = delivery_id, event_type = RELEASE_PUBLISHED, source = ''github'',
           timestamp = utcnow_isoformat rt, actor = actr, repository = repo,
           metadata = EventMetadata_default \<lparr> release_id := rid, release_name := rn,
             release_tag := tg, release_url := ru, release_draft := dr,
             release_prerelease := pre, action := act \<rparr>,
           changes = [], raw_payload = payload \<rparr>))))))))))))"

section \<open>Serialization (StandardEvent.to_dict)\<close>

text \<open>
  \<^verbatim>\<open>to_dict\<close> returns a Python dict. Its values are strings, decoded payload values,
  dicts and lists, and also whatever object an attribute dict \<^verbatim>\<open>__dict__\<close> holds: the
  \<^verbatim>\<open>__dict__\<close> of a \<^verbatim>\<open>Change\<close> holds the \<^verbatim>\<open>ChangeType\<close> member and the \<^verbatim>\<open>Actor\<close>
  instance themselves.
\<close>

datatype pyobj =
    PNone
  | PBool bool
  | PInt int
  | PStr string
  | PList "pyobj list"
  | PDict "(string \<times> pyobj) list"
  | PChangeType ChangeType
  | PActor Actor

primrec of_json :: "json \<Rightarrow> pyobj" where
  "of_json JNull = PNone"
| "of_json (JBool b) = PBool b"
| "of_json (JInt n) = PInt n"
| "of_json (JStr s) = PStr s"
| "of_json (JList xs) = PList (map of_json xs)"
| "of_json (JObj kvs) = PDict (map (map_prod id of_json) kvs)"

text \<open>What \<^verbatim>\<open>json.dumps\<close> accepts: no enum member and no dataclass instance at any
  depth.\<close>

primrec json_compatible :: "pyobj \<Rightarrow> bool" where
  "json_compatible PNone = True"
| "json_compatible (PBool b) = True"
| "json_compatible (PInt n) = True"
| "json_compatible (PStr s) = True"
| "json_compatible (PList xs) = list_all id (map json_compatible xs)"
| "json_compatible (PDict kvs) = list_all id (map snd (map (map_prod id json_compatible) kvs))"
| "json_compatible (PChangeType t) = False"
| "json_compatible (PActor a) = False"

definition Actor_dict :: "Actor \<Rightarrow> (string \<times> pyobj) list" where
  "Actor_dict a =
     [(''id'', PStr (actor_id a)), (''username'', of_json (username a)),
      (''name'', of_json (actor_name a)), (''email'', of_json (email a)),
      (''avatar_url'', of_json (avatar_url a))]"

definition Repository_dict :: "Repository \<Rightarrow> (string \<times> pyobj) list" where
  "Repository_dict r =
     [(''id'', PStr (repo_id r)), (''name'', of_json (repo_name r)),
      (''full_name'', of_json (full_name r)), (''owner'', of_json (owner r)),
      (''url'', of_json (url r)), (''default_branch'', of_json (default_branch r))]"

definition Change_dict :: "Change \<Rightarrow> (string \<times> pyobj) list" where
  "Change_dict c =
     [(''type'', PChangeType (change_type c)), (''id'', of_json (change_id c)),
      (''message'', of_json (message c)), (''timestamp'', of_json (change_timestamp c)),
      (''author'', (case author c of None \<Rightarrow> PNone | Some a \<Rightarrow> PActor a)),
      (''files_added'', of_json (files_added c)),
      (''files_modified'', of_json (files_modified c)),
      (''files_removed'', of_json (files_removed c))]"

text \<open>The fields of \<^verbatim>\<open>EventMetadata\<close> annotated \<^verbatim>\<open>Optional\<close>, in the order of the
  class.\<close>

definition optional_fields :: "EventMetadata \<Rightarrow> (string \<times> json) list" where
  "optional_fields m =
     [(''ref'', ref m), (''before'', before_sha m), (''after'', after m),
      (''created'', created m), (''deleted'', deleted m), (''forced'', forced m),
      (''base_ref'', base_ref m), (''compare_url'', compare_url m),
      (''pr_number'', pr_number m), (''pr_title'', pr_title m), (''pr_state'', pr_state m),
      (''pr_url'', pr_url m), (''pr_merged'', pr_merged m), (''pr_draft'', pr_draft m),
      (''pr_base_ref'', pr_base_ref m), (''pr_head_ref'', pr_head_ref m),
      (''pr_author'', pr_author m),
      (''issue_number'', issue_number m), (''issue_title'', issue_title m),
      (''issue_state'', issue_state m), (''issue_url'', issue_url m),
      (''issue_author'', issue_author m),
      (''comment_id'', comment_id m), (''comment_body'', comment_body m),
      (''comment_url'', comment_url m),
      (''review_id'', review_id m), (''review_state'', review_state m),
      (''review_body'', review_body m), (''review_url'', review_url m),
      (''release_id'', release_id m), (''release_name'', release_name m),
      (''release_tag'', release_tag m), (''release_url'', release_url m),
      (''release_draft'', release_draft m), (''release_prerelease'', release_prerelease m),
      (''action'', action m)]"

definition EventMetadata_dict :: "EventMetadata \<Rightarrow> (string \<times> pyobj) list" where
  "EventMetadata_dict m =
     map (map_prod id of_json) (optional_fields m) @
     [(''labels'', PList (map of_json (labels m))),
      (''assignees'', PList (map of_json (assignees m))),
      (''custom'', PDict (map (map_prod id of_json) (custom m)))]"

definition to_dict :: "StandardEvent \<Rightarrow> pyobj" where
  "to_dict ev = PDict
     [(''id'', PStr (event_id ev)),
      (''type'', PStr (EventType_value (event_type ev))),
      (''source'', PStr (source ev)),
      (''timestamp'', PStr (timestamp ev)),
      (''actor'', PDict (Actor_dict (actor ev))),
      (''repository'', PDict (Repository_dict (repository ev))),
      (''metadata'', PDict (EventMetadata_dict (metadata ev))),
      (''changes'', PList (map (\<lambda>c. PDict (Change_dict c)) (changes ev))),
      (''raw_payload'', of_json (raw_payload ev))]"

section \<open>The webhook handler (github/webhook_handler.py)\<close>

text \<open>\<^verbatim>\<open>str.encode('utf-8')\<close> on code points below U+0100: one byte below U+0080, two
  bytes from there.\<close>

definition utf8_encode :: "string \<Rightarrow> bytes" where
  "utf8_encode s = concat (map (\<lambda>c.
     if (of_char c :: nat) < 128 then [c]
     else [char_of (192 + (of_char c :: nat) div 64),
           char_of (128 + (of_char c :: nat) mod 64)]) s)"

type_synonym mapper = "runtime \<Rightarrow> json \<Rightarrow> string \<Rightarrow> py_exc + StandardEvent"

record GitHubWebhookHandler =
  secret :: bytes
  event_mappers :: "(string \<times> mapper) list"

definition GitHubWebhookHandler_init :: "string \<Rightarrow> GitHubWebhookHandler" where
  "GitHubWebhookHandler_init secret_str = \<lparr>
     secret = utf8_encode secret_str,
     event_mappers =
       [(''push'', map_push_event),
        (''pull_request'', map_pull_request_event),
        (''issues'', map_issue_event),
        (''issue_comment'', map_issue_comment_event),
        (''pull_request_review'', map_pull_request_review_event),
        (''release'', map_release_event)] \<rparr>"

definition ascii_only :: "string \<Rightarrow> bool" where
  "ascii_only s = list_all (\<lambda>c. (of_char c :: nat) < 128) s"

text \<open>\<^verbatim>\<open>hmac.compare_digest\<close> on two str arguments: it compares strings of ASCII
  characters and raises \<^verbatim>\<open>TypeError\<close> when either has a character beyond U+007F.\<close>

definition compare_digest :: "string \<Rightarrow> string \<Rightarrow> py_exc + bool" where
  "compare_digest a b =
     (if ascii_only a \<and> ascii_only b then Inr (a = b) else Inl TypeError)"

definition verify_signature ::
  "GitHubWebhookHandler \<Rightarrow> runtime \<Rightarrow> bytes \<Rightarrow> string \<Rightarrow> py_exc + bool" where
  "verify_signature h rt payload signature =
     (if signature = [] \<or> take 7 signature \<noteq> ''sha256='' then Inr False
      else compare_digest (hmac_sha256_hexdigest rt (secret h) payload) (drop 7 signature))"

text \<open>The two \<^verbatim>\<open>print\<close> calls of \<^verbatim>\<open>process_webhook\<close> write to the console and change
  no result; an exception of the mapper is raised again as it is.\<close>

definition process_webhook ::
  "GitHubWebhookHandler \<Rightarrow> runtime \<Rightarrow> string \<Rightarrow> json \<Rightarrow> string
     \<Rightarrow> py_exc + StandardEvent option" where
  "process_webhook h rt etype payload delivery_id =
     (case map_of (event_mappers h) etype of
        None \<Rightarrow> Inr None
      | Some mp \<Rightarrow> bindE (mp rt payload delivery_id) (\<lambda>ev. Inr (Some ev)))"

text \<open>\<^verbatim>\<open>not h\<close> for a header read with \<^verbatim>\<open>headers.get\<close>: absent or the empty
  string.\<close>

fun header_missing :: "string option \<Rightarrow> bool" where
  "header_missing None = True"
| "header_missing (Some v) = (v = [])"

definition handle_request ::
  "GitHubWebhookHandler \<Rightarrow> runtime \<Rightarrow> (string \<times> string) list \<Rightarrow> bytes
     \<Rightarrow> py_exc + StandardEvent option" where
  "handle_request h rt headers body =
     bindE (verify_signature h rt body
              (case map_of headers ''X-Hub-Signature-256'' of None \<Rightarrow> [] | Some s \<Rightarrow> s))
       (\<lambda>ok.
     if \<not> ok then Inl (ValueError ''Invalid webhook signature'')
     else
       bindE (json_loads rt body) (\<lambda>payload.
       if header_missing (map_of headers ''X-GitHub-Event'')
          \<or> header_missing (map_of headers ''X-GitHub-Delivery'')
       then Inl (ValueError ''Missing required headers'')
       else process_webhook h rt
              (case map_of headers ''X-GitHub-Event'' of None \<Rightarrow> [] | Some v \<Rightarrow> v)
              payload
              (case map_of headers ''X-GitHub-Delivery'' of None \<Rightarrow> [] | Some v \<Rightarrow> v)))"

section \<open>The publishers (event_bus/publisher.py)\<close>

text \<open>
  A publisher is its \<^verbatim>\<open>publish\<close> method: from the event and the state of the outside
  world (console, network) to the boolean it returns or the exception it raises, and the
  new state of the world.
\<close>

type_synonym 'w publisher = "StandardEvent \<Rightarrow> 'w \<Rightarrow> (py_exc + bool) \<times> 'w"

text \<open>\<^verbatim>\<open>[publisher.publish(event) for publisher in self.publishers]\<close>: one call after
  the other, each on the world the previous one left; an exception ends the
  comprehension.\<close>

fun publish_results ::
  "'w publisher list \<Rightarrow> StandardEvent \<Rightarrow> 'w \<Rightarrow> (py_exc + bool list) \<times> 'w" where
  "publish_results [] ev w = (Inr [], w)"
| "publish_results (p # ps) ev w =
     (case p ev w of
        (Inl e, w') \<Rightarrow> (Inl e, w')
      | (Inr b, w') \<Rightarrow>
          (case publish_results ps ev w' of
             (Inl e, w'') \<Rightarrow> (Inl e, w'')
           | (Inr bs, w'') \<Rightarrow> (Inr (b # bs), w'')))"

definition MultiPublisher_publish :: "'w publisher list \<Rightarrow> 'w publisher" where
  "MultiPublisher_publish publishers ev w =
     (case publish_results publishers ev w of
        (Inl e, w') \<Rightarrow> (Inl e, w')
      | (Inr results, w') \<Rightarrow> (Inr (list_all id results), w'))"

definition MessageQueuePublisher_publish :: "'w publisher" where
  "MessageQueuePublisher_publish ev w =
     (Inl (NotImplementedError ''Message queue publishing not yet implemented''), w)"

section \<open>The HTTP endpoint (api/flask_app.py)\<close>

record response =
  status :: nat
  body :: "(string \<times> json) list"

definition error_response :: "py_exc \<Rightarrow> response" where
  "error_response e =
     (if is_ValueError e
      then \<lparr> status = 401,
             body = [(''status'', JStr ''error''), (''message'', JStr (str_of_exc e))] \<rparr>
      else \<lparr> status = 500,
             body = [(''status'', JStr ''error''),
                     (''message'', JStr ''Internal server error'')] \<rparr>)"


section \<open>Sample inputs\<close>

text \<open>
  The payloads of tests/test_github_handler.py, and a runtime for the concrete runs. The
  sample \<^verbatim>\<open>str()\<close> gives the decimal digits of an integer and returns a string
  unchanged, which covers every identifier of the samples; the \<^verbatim>\<open>repr\<close> of a list or a
  dict is not computed. The sample HMAC is a table of two digests computed with
  Python's \<^verbatim>\<open>hmac\<close> module, for the bodies \<^verbatim>\<open>{}\<close> and \<^verbatim>\<open>not json\<close> under the key
  \<^verbatim>\<open>test-secret\<close>; for any other key or body it has no digest and gives a one-character
  string that is not ASCII, so that a run outside the table ends in \<^verbatim>\<open>TypeError\<close> and
  not in a verdict. The sample decoder knows the same two bodies, with the result of
  \<^verbatim>\<open>json.loads\<close> on each. Every concrete run below stays inside these tables.
\<close>

fun dec_nat :: "nat \<Rightarrow> string" where
  "dec_nat n =
     (if n < 10 then [char_of (48 + n)] else dec_nat (n div 10) @ [char_of (48 + n mod 10)])"

declare dec_nat.simps [simp del]

fun sample_str :: "json \<Rightarrow> py_exc + string" where
  "sample_str (JStr s) = Inr s"
| "sample_str (JInt n) = Inr (if n < 0 then CHR ''-'' # dec_nat (nat (- n)) else dec_nat (nat n))"
| "sample_str (JBool b) = Inr (if b then ''True'' else ''False'')"
| "sample_str JNull = Inr ''None''"
| "sample_str v = Inl (OtherError ''repr of a container is not part of the sample'')"

definition sample_digest :: string where
  "sample_digest = ''2f59040b63b7200598444239da2c9a4f3abc5c434259b23126d72514dab8cd09''"

definition sample_digest_not_json :: string where
  "sample_digest_not_json =
     ''fe68c90da0bbb712f0f5c50663c6a30698f249678fb190ddd85d95dfe208faa6''"

definition sample_hmac :: "bytes \<Rightarrow> bytes \<Rightarrow> string" where
  "sample_hmac key msg =
     (if key = ''test-secret'' \<and> msg = ''{}'' then sample_digest
      else if key = ''test-secret'' \<and> msg = ''not json'' then sample_digest_not_json
      else [CHR 0xFF])"

definition sample_loads :: "bytes \<Rightarrow> py_exc + json" where
  "sample_loads b =
     (if b = ''{}'' then Inr (JObj [])
      else if b = ''not json''
      then Inl (JSONDecodeError ''Expecting value: line 1 column 1 (char 0)'')
      else Inl (OtherError ''body outside the sample''))"

definition sample_runtime :: runtime where
  "sample_runtime = \<lparr>
     str_builtin = sample_str,
     utcnow_isoformat = ''2026-02-27T21:00:05.000000'',
     hmac_sha256_hexdigest = sample_hmac,
     json_loads = sample_loads \<rparr>"

definition sample_user :: json where
  "sample_user = JObj
     [(''id'', JInt 1), (''login'', JStr ''testuser''), (''name'', JStr ''Test User''),
      (''email'', JStr ''test@example.com'')]"

definition sample_repository :: json where
  "sample_repository = JObj
     [(''id'', JInt 123), (''name'', JStr ''test-repo''),
      (''full_name'', JStr ''testuser/test-repo''),
      (''owner'', JObj [(''login'', JStr ''testuser'')]),
      (''html_url'', JStr ''https://github.com/testuser/test-repo''),
      (''default_branch'', JStr ''main'')]"

definition sample_commit :: "(string \<times> json) list \<Rightarrow> json" where
  "sample_commit author_fields = JObj
     [(''id'', JStr ''def456''), (''message'', JStr ''Test commit''),
      (''timestamp'', JStr ''2026-02-27T21:00:00Z''),
      (''author'', JObj author_fields),
      (''added'', JList [JStr ''file1.txt'']),
      (''modified'', JList [JStr ''file2.txt'']),
      (''removed'', JList [])]"

definition sample_author :: "(string \<times> json) list" where
  "sample_author =
     [(''username'', JStr ''testuser''), (''name'', JStr ''Test User''),
      (''email'', JStr ''test@example.com'')]"

definition push_payload :: "json list \<Rightarrow> json" where
  "push_payload commits = JObj
     [(''ref'', JStr ''refs/heads/main''), (''before'', JStr ''abc123''),
      (''after'', JStr ''def456''), (''pusher'', sample_user),
      (''repository'', sample_repository), (''commits'', JList commits)]"

definition pull_request_fields :: "(string \<times> json) list" where
  "pull_request_fields =
     [(''number'', JInt 42), (''title'', JStr ''Add new feature''),
      (''state'', JStr ''open''),
      (''html_url'', JStr ''https://github.com/testuser/test-repo/pull/42''),
      (''user'', JObj [(''login'', JStr ''testuser'')]),
      (''base'', JObj [(''ref'', JStr ''main'')]),
      (''head'', JObj [(''ref'', JStr ''feature-branch'')]),
      (''labels'', JList [])]"

definition pull_request_payload :: "json \<Rightarrow> (string \<times> json) list \<Rightarrow> json" where
  "pull_request_payload act flags = JObj
     [(''action'', act), (''sender'', sample_user), (''repository'', sample_repository),
      (''pull_request'', JObj (pull_request_fields @ flags))]"

definition issue_fields :: "(string \<times> json) list" where
  "issue_fields =
     [(''number'', JInt 7), (''title'', JStr ''A bug''), (''state'', JStr ''open''),
      (''html_url'', JStr ''https://github.com/testuser/test-repo/issues/7''),
      (''user'', JObj [(''login'', JStr ''testuser'')]),
      (''labels'', JList [JObj [(''name'', JStr ''bug'')]]),
      (''assignees'', JList [JObj [(''login'', JStr ''testuser'')]])]"

definition issue_payload :: json where
  "issue_payload = JObj
     [(''action'', JStr ''opened''), (''sender'', sample_user),
      (''repository'', sample_repository), (''issue'', JObj issue_fields)]"

definition issue_comment_payload :: "(string \<times> json) list \<Rightarrow> json" where
  "issue_comment_payload linkage = JObj
     [(''action'', JStr ''created''), (''sender'', sample_user),
      (''repository'', sample_repository),
      (''comment'', JObj
         [(''id'', JInt 9), (''body'', JStr ''Looks good''),
          (''html_url'', JStr ''https://github.com/testuser/test-repo/issues/7#c9'')]),
      (''issue'', JObj (issue_fields @ linkage))]"

definition review_payload :: "(string \<times> json) list \<Rightarrow> json" where
  "review_payload body_field = JObj
     [(''action'', JStr ''submitted''), (''sender'', sample_user),
      (''repository'', sample_repository),
      (''review'', JObj
         ([(''id'', JInt 5), (''state'', JStr ''approved''),
           (''html_url'', JStr ''https://github.com/testuser/test-repo/pull/42#r5'')]
          @ body_field)),
      (''pull_request'', JObj
         [(''number'', JInt 42), (''title'', JStr ''Add new feature'')])]"

definition release_payload :: json where
  "release_payload = JObj
     [(''action'', JStr ''published''), (''sender'', sample_user),
      (''repository'', sample_repository),
      (''release'', JObj
         [(''id'', JInt 3), (''name'', JStr ''First release''), (''tag_name'', JStr ''v1.0''),
          (''html_url'', JStr ''https://github.com/testuser/test-repo/releases/v1.0''),
          (''draft'', JBool False), (''prerelease'', JBool False)])]"

text \<open>Publishers for the runs of the composite publisher: the world is the list of the
  names of the publishers called so far, and each returns a fixed result.\<close>

definition recording_publisher :: "string \<Rightarrow> bool \<Rightarrow> string list publisher" where
  "recording_publisher nm result ev w = (Inr result, w @ [nm])"

section \<open>The composite publisher as the specification words it\<close>

text \<open>
  A sink is a publisher that returns a boolean and never raises. \<open>invoke_all\<close> follows the
  words of the specification: every sink of the list is called, in list order, each on
  the world the previous one left, whatever the earlier ones returned; it gives the
  booleans in that order and the last world. It is compared with
  \<open>MultiPublisher_publish\<close> below.
\<close>

type_synonym 'w sink = "StandardEvent \<Rightarrow> 'w \<Rightarrow> bool \<times> 'w"

definition returning :: "'w sink \<Rightarrow> 'w publisher" where
  "returning snk ev w = (case snk ev w of (b, w') \<Rightarrow> (Inr b, w'))"

fun invoke_all :: "'w sink list \<Rightarrow> StandardEvent \<Rightarrow> 'w \<Rightarrow> bool list \<times> 'w" where
  "invoke_all [] ev w = ([], w)"
| "invoke_all (snk # snks) ev w =
     (case snk ev w of
        (b, w') \<Rightarrow> (case invoke_all snks ev w' of (bs, w'') \<Rightarrow> (b # bs, w'')))"

section \<open>The metadata fields a mapper fills\<close>

text \<open>
  For each registered category, the keyword arguments of the \<^verbatim>\<open>EventMetadata(...)\<close> call
  of its mapper, in the order of the source. \<open>unset_outside ks m\<close> says that every optional
  field of \<open>m\<close> whose name is not in \<open>ks\<close> is \<^verbatim>\<open>None\<close>.
\<close>

definition metadata_keywords :: "(string \<times> string list) list" where
  "metadata_keywords =
     [(''push'',
       [''ref'', ''before'', ''after'', ''created'', ''deleted'', ''forced'', ''base_ref'',
        ''compare_url'']),
      (''pull_request'',
       [''pr_number'', ''pr_title'', ''pr_state'', ''pr_url'', ''pr_merged'', ''pr_draft'',
        ''pr_base_ref'', ''pr_head_ref'', ''pr_author'', ''action'', ''labels'']),
      (''issues'',
       [''issue_number'', ''issue_title'', ''issue_state'', ''issue_url'', ''issue_author'',
        ''action'', ''labels'', ''assignees'']),
      (''issue_comment'',
       [''comment_id'', ''comment_body'', ''comment_url'', ''issue_number'', ''issue_title'',
        ''action'']),
      (''pull_request_review'',
       [''review_id'', ''review_state'', ''review_body'', ''review_url'', ''pr_number'',
        ''pr_title'', ''action'']),
      (''release'',
       [''release_id'', ''release_name'', ''release_tag'', ''release_url'', ''release_draft'',
        ''release_prerelease'', ''action''])]"

definition unset_outside :: "string list \<Rightarrow> EventMetadata \<Rightarrow> bool" where
  "unset_outside ks m =
     list_all (\<lambda>kv. fst kv \<in> set ks \<or> snd kv = JNull) (optional_fields m)"

section \<open>The keys map_push_event requires\<close>

text \<open>
  The keys that \<^verbatim>\<open>map_push_event\<close>, \<^verbatim>\<open>extract_actor\<close> and \<^verbatim>\<open>extract_repository\<close> read
  with \<^verbatim>\<open>obj[key]\<close>, as a condition on the payload. \<open>has_keys v ks\<close>: the value \<open>v\<close> is a
  dict that has every key of \<open>ks\<close>. A commit is complete when it has \<^verbatim>\<open>id\<close>,
  \<^verbatim>\<open>message\<close>, \<^verbatim>\<open>timestamp\<close> and an \<^verbatim>\<open>author\<close> dict with \<^verbatim>\<open>username\<close>, \<^verbatim>\<open>name\<close> and
  \<^verbatim>\<open>email\<close>; a user when it has \<^verbatim>\<open>id\<close> and \<^verbatim>\<open>login\<close> and \<^verbatim>\<open>str()\<close> returns on the
  id; a repository when it has \<^verbatim>\<open>id\<close>, \<^verbatim>\<open>name\<close>, \<^verbatim>\<open>full_name\<close>, \<^verbatim>\<open>html_url\<close> and an
  \<^verbatim>\<open>owner\<close> dict with \<^verbatim>\<open>login\<close>, and \<^verbatim>\<open>str()\<close> returns on the id; a push payload when
  it has \<^verbatim>\<open>ref\<close>, \<^verbatim>\<open>before\<close>, \<^verbatim>\<open>after\<close>, a complete \<^verbatim>\<open>pusher\<close> and a complete
  \<^verbatim>\<open>repository\<close>, and its \<^verbatim>\<open>commits\<close> (the empty list when the key is absent) is a list
  of complete commits.
\<close>

fun has_keys :: "json \<Rightarrow> string list \<Rightarrow> bool" where
  "has_keys (JObj kvs) ks = list_all (\<lambda>k. map_of kvs k \<noteq> None) ks"
| "has_keys v ks = False"





section \<open>Basic facts\<close>

lemma bindE_Inr [simp]: "bindE (Inr v) f = f v"
  by (simp add: bindE_def)

lemma bindE_Inl [simp]: "bindE (Inl e) f = Inl e"
  by (simp add: bindE_def)

lemma bindE_eq_Inr: "(bindE m f = Inr y) = (\<exists>v. m = Inr v \<and> f v = Inr y)"
  by (cases m) simp_all

lemma mapE_Inr_iff: "(mapE f xs = Inr ys) = list_all2 (\<lambda>x y. f x = Inr y) xs ys"
proof (induction xs arbitrary: ys)
  case Nil
  show ?case by auto
next
  case (Cons x xs)
  show ?case
    by (cases ys) (auto simp: bindE_eq_Inr Cons.IH)
qed

lemma mapE_raises:
  "x \<in> set xs \<Longrightarrow> f x = Inl e \<Longrightarrow> \<exists>e'. mapE f xs = Inl e'"
proof (induction xs)
  case Nil
  then show ?case by simp
next
  case (Cons a xs)
  show ?case
  proof (cases "f a")
    case (Inl e0)
    then show ?thesis by simp
  next
    case (Inr y)
    show ?thesis
    proof (cases "a = x")
      case True
      with Cons.prems Inr show ?thesis by simp
    next
      case False
      with Cons.prems have "x \<in> set xs" by simp
      from Cons.IH[OF this Cons.prems(2)] obtain e' where "mapE f xs = Inl e'" ..
      with Inr show ?thesis by simp
    qed
  qed
qed

lemma py_get_Inr: "py_get v k d = Inr w \<Longrightarrow> \<exists>kvs. v = JObj kvs"
  by (cases v) simp_all

lemma py_index_Inr:
  "py_index v k = Inr w \<Longrightarrow> \<exists>kvs. v = JObj kvs \<and> map_of kvs k = Some w"
  by (cases v) (simp_all split: option.splits)

text \<open>The sample \<^verbatim>\<open>str()\<close> on the identifiers of the samples.\<close>

lemma sample_str_1: "sample_str (JInt 1) = Inr ''1''"
  by code_simp

lemma sample_str_123: "sample_str (JInt 123) = Inr ''123''"
  by code_simp

lemmas sample_defs = sample_runtime_def sample_user_def sample_repository_def
  sample_commit_def sample_author_def push_payload_def pull_request_payload_def
  pull_request_fields_def
  issue_fields_def issue_payload_def issue_comment_payload_def review_payload_def
  release_payload_def sample_str_1 sample_str_123

lemmas mapper_defs = map_push_event_def map_pull_request_event_def map_issue_event_def
  map_issue_comment_event_def map_pull_request_review_event_def map_release_event_def
  extract_actor_def extract_repository_def commit_change_def py_index2_def names_of_def

section \<open>Pull-request events: the type follows the action\<close>

text \<open>
  C1. Whenever \<open>map_pull_request_event\<close> returns an event for a payload with a
  \<^verbatim>\<open>pull_request\<close> object and an \<^verbatim>\<open>action\<close>, the pull request is a dict and the type of
  the event is: \<open>PR_MERGED\<close> for the action \<^verbatim>\<open>closed\<close> with \<^verbatim>\<open>merged\<close> true,
  \<open>PR_CLOSED\<close> for \<^verbatim>\<open>closed\<close> with \<^verbatim>\<open>merged\<close> false or absent, \<open>PR_OPENED\<close> for
  \<^verbatim>\<open>opened\<close>, \<open>PR_REOPENED\<close> for \<^verbatim>\<open>reopened\<close>, \<open>PR_UPDATED\<close> for \<^verbatim>\<open>synchronize\<close> and
  \<^verbatim>\<open>edited\<close>, \<open>PR_REVIEW_REQUESTED\<close> for \<^verbatim>\<open>review_requested\<close>, and \<open>PR_UPDATED\<close> for
  every action outside this table.
\<close>

theorem pull_request_event_type:
  assumes ret: "map_pull_request_event rt payload delivery_id = Inr ev"
    and act: "py_index payload ''action'' = Inr act"
    and pr: "py_index payload ''pull_request'' = Inr pr"
  shows "\<exists>kvs. pr = JObj kvs \<and>
     (act = JStr ''closed'' \<and> map_of kvs ''merged'' = Some (JBool True)
        \<longrightarrow> event_type ev = PR_MERGED) \<and>
     (act = JStr ''closed'' \<and>
        (map_of kvs ''merged'' = Some (JBool False) \<or> map_of kvs ''merged'' = None)
        \<longrightarrow> event_type ev = PR_CLOSED) \<and>
     (act = JStr ''opened'' \<longrightarrow> event_type ev = PR_OPENED) \<and>
     (act = JStr ''reopened'' \<longrightarrow> event_type ev = PR_REOPENED) \<and>
     (act = JStr ''synchronize'' \<longrightarrow> event_type ev = PR_UPDATED) \<and>
     (act = JStr ''edited'' \<longrightarrow> event_type ev = PR_UPDATED) \<and>
     (act = JStr ''review_requested'' \<longrightarrow> event_type ev = PR_REVIEW_REQUESTED) \<and>
     (act \<notin> JStr ` {''opened'', ''closed'', ''reopened'', ''synchronize'', ''edited'',
                    ''review_requested''}
        \<longrightarrow> event_type ev = PR_UPDATED)"
proof -
  from ret act pr obtain mg ty where
    mg: "py_get pr ''merged'' JNull = Inr mg" and
    ty: "dict_get
        [(''opened'', PR_OPENED),
         (''closed'', if py_truthy mg then PR_MERGED else PR_CLOSED),
         (''reopened'', PR_REOPENED),
         (''synchronize'', PR_UPDATED),
         (''edited'', PR_UPDATED),
         (''review_requested'', PR_REVIEW_REQUESTED)] act PR_UPDATED = Inr ty" and
    ev: "event_type ev = ty"
    unfolding map_pull_request_event_def by (auto simp: bindE_eq_Inr)
  from py_get_Inr[OF mg] obtain kvs where kvs: "pr = JObj kvs" ..
  show ?thesis
  proof (intro exI[of _ kvs] conjI impI)
    show "pr = JObj kvs" by (rule kvs)
  next
    assume "act = JStr ''closed'' \<and> map_of kvs ''merged'' = Some (JBool True)"
    with mg ty ev kvs show "event_type ev = PR_MERGED" by auto
  next
    assume "act = JStr ''closed'' \<and>
        (map_of kvs ''merged'' = Some (JBool False) \<or> map_of kvs ''merged'' = None)"
    with mg ty ev kvs show "event_type ev = PR_CLOSED" by auto
  next
    assume "act = JStr ''opened''"
    with ty ev show "event_type ev = PR_OPENED" by auto
  next
    assume "act = JStr ''reopened''"
    with ty ev show "event_type ev = PR_REOPENED" by auto
  next
    assume "act = JStr ''synchronize''"
    with ty ev show "event_type ev = PR_UPDATED" by auto
  next
    assume "act = JStr ''edited''"
    with ty ev show "event_type ev = PR_UPDATED" by auto
  next
    assume "act = JStr ''review_requested''"
    with ty ev show "event_type ev = PR_REVIEW_REQUESTED" by auto
  next
    assume "act \<notin> JStr ` {''opened'', ''closed'', ''reopened'', ''synchronize'', ''edited'',
                    ''review_requested''}"
    with ty ev show "event_type ev = PR_UPDATED"
      by (cases act) (auto split: if_splits)
  qed
qed

text \<open>The mapper returns on the sample pull-request payload, whatever the action and
  the extra keys of the pull request.\<close>

lemma pull_request_sample_returns:
  "\<exists>ev. map_pull_request_event sample_runtime (pull_request_payload (JStr a) flags) d
         = Inr ev"
  by (simp add: mapper_defs sample_defs del: sample_str.simps split: option.splits)

theorem pull_request_event_type_witness:
  "event_type (projr (map_pull_request_event sample_runtime
       (pull_request_payload (JStr ''closed'') [(''merged'', JBool True)])
       ''test-delivery-id'')) = PR_MERGED
   \<and> event_type (projr (map_pull_request_event sample_runtime
       (pull_request_payload (JStr ''closed'') []) ''test-delivery-id'')) = PR_CLOSED
   \<and> event_type (projr (map_pull_request_event sample_runtime
       (pull_request_payload (JStr ''labeled'') []) ''test-delivery-id'')) = PR_UPDATED"
proof -
  let ?d = "''test-delivery-id''"
  have act: "py_index (pull_request_payload (JStr a) flags) ''action'' = Inr (JStr a)"
    for a flags
    by (simp add: pull_request_payload_def)
  have pr: "py_index (pull_request_payload (JStr a) flags) ''pull_request''
              = Inr (JObj (pull_request_fields @ flags))" for a flags
    by (simp add: pull_request_payload_def)
  have nomerged: "map_of pull_request_fields ''merged'' = None"
    by (simp add: pull_request_fields_def)
  obtain ev1 where run1: "map_pull_request_event sample_runtime
       (pull_request_payload (JStr ''closed'') [(''merged'', JBool True)]) ?d = Inr ev1"
    using pull_request_sample_returns by blast
  from pull_request_event_type[OF run1 act pr] nomerged
  have "event_type ev1 = PR_MERGED" by (simp add: map_add_def)
  with run1 have c1: "event_type (projr (map_pull_request_event sample_runtime
       (pull_request_payload (JStr ''closed'') [(''merged'', JBool True)]) ?d)) = PR_MERGED"
    by simp
  obtain ev2 where run2: "map_pull_request_event sample_runtime
       (pull_request_payload (JStr ''closed'') []) ?d = Inr ev2"
    using pull_request_sample_returns by blast
  from pull_request_event_type[OF run2 act pr] nomerged
  have "event_type ev2 = PR_CLOSED" by simp
  with run2 have c2: "event_type (projr (map_pull_request_event sample_runtime
       (pull_request_payload (JStr ''closed'') []) ?d)) = PR_CLOSED"
    by simp
  obtain ev3 where run3: "map_pull_request_event sample_runtime
       (pull_request_payload (JStr ''labeled'') []) ?d = Inr ev3"
    using pull_request_sample_returns by blast
  from pull_request_event_type[OF run3 act pr]
  have "event_type ev3 = PR_UPDATED" by auto
  with run3 have c3: "event_type (projr (map_pull_request_event sample_runtime
       (pull_request_payload (JStr ''labeled'') []) ?d)) = PR_UPDATED"
    by simp
  from c1 c2 c3 show ?thesis by blast
qed

section \<open>Push events: one change per commit\<close>

lemma commit_change_Inr:
  assumes "commit_change c = Inr ch"
  shows "change_type ch = COMMIT"
    and "py_get c ''added'' (JList []) = Inr (files_added ch)"
    and "py_get c ''modified'' (JList []) = Inr (files_modified ch)"
    and "py_get c ''removed'' (JList []) = Inr (files_removed ch)"
    and "\<exists>a. author ch = Some a \<and> actor_id a = []"
  using assms unfolding commit_change_def by (auto simp: bindE_eq_Inr)

lemma map_push_event_changes:
  assumes "map_push_event rt payload delivery_id = Inr ev"
    and "py_get payload ''commits'' (JList []) = Inr commits"
  shows "\<exists>cs. py_iter commits = Inr cs \<and> mapE commit_change cs = Inr (changes ev)"
  using assms unfolding map_push_event_def by (auto simp: bindE_eq_Inr)


lemma push_sample_returns:
  "\<exists>ev. map_push_event sample_runtime (push_payload [sample_commit sample_author]) d = Inr ev"
  by (simp add: mapper_defs sample_defs del: sample_str.simps)

lemma push_sample_empty_returns:
  "\<exists>ev. map_push_event sample_runtime (push_payload []) d = Inr ev"
  by (simp add: mapper_defs sample_defs del: sample_str.simps)

text \<open>The mapper returns on every complete payload.\<close>

lemma has_keys_JObj: "has_keys v ks \<Longrightarrow> \<exists>kvs. v = JObj kvs"
  by (cases v) simp_all














section \<open>Push events: the author of a change\<close>

lemma commit_change_author_keys:
  assumes "commit_change c = Inr ch" and "py_index c ''author'' = Inr (JObj au)"
  shows "map_of au ''username'' \<noteq> None \<and> map_of au ''name'' \<noteq> None
         \<and> map_of au ''email'' \<noteq> None"
  using assms unfolding commit_change_def py_index2_def
  by (auto simp: bindE_eq_Inr split: option.splits)

lemma commit_change_raises:
  assumes "py_index c ''author'' = Inr (JObj au)"
    and "map_of au ''username'' = None \<or> map_of au ''name'' = None
         \<or> map_of au ''email'' = None"
  shows "\<exists>e. commit_change c = Inl e"
proof (cases "commit_change c")
  case (Inl e)
  then show ?thesis by simp
next
  case (Inr ch)
  from commit_change_author_keys[OF Inr assms(1)] assms(2) show ?thesis by auto
qed

lemma process_webhook_push:
  "process_webhook (GitHubWebhookHandler_init s) rt ''push'' payload d
     = bindE (map_push_event rt payload d) (\<lambda>ev. Inr (Some ev))"
  by (simp add: process_webhook_def GitHubWebhookHandler_init_def)

text \<open>
  C10. Every change of an event that \<open>map_push_event\<close> returns has an author whose id is
  the empty string. And when a commit of the payload has an author object without one of
  the keys \<^verbatim>\<open>username\<close>, \<^verbatim>\<open>name\<close>, \<^verbatim>\<open>email\<close>, the mapper raises, and so does
  \<open>process_webhook\<close> for the category \<^verbatim>\<open>push\<close>.
\<close>

theorem push_change_author:
  "(map_push_event rt payload delivery_id = Inr ev
      \<longrightarrow> (\<forall>ch \<in> set (changes ev). \<exists>a. author ch = Some a \<and> actor_id a = []))
   \<and> (py_get payload ''commits'' (JList []) = Inr (JList cs) \<and> c \<in> set cs
        \<and> py_index c ''author'' = Inr (JObj au)
        \<and> (map_of au ''username'' = None \<or> map_of au ''name'' = None
             \<or> map_of au ''email'' = None)
      \<longrightarrow> (\<exists>e. map_push_event rt payload delivery_id = Inl e)
          \<and> (\<exists>e. process_webhook (GitHubWebhookHandler_init s) rt ''push'' payload
                    delivery_id = Inl e))"
proof (intro conjI impI ballI)
  fix ch
  assume ret: "map_push_event rt payload delivery_id = Inr ev" and ch: "ch \<in> set (changes ev)"
  from ret obtain cs' where "mapE commit_change cs' = Inr (changes ev)"
    unfolding map_push_event_def by (auto simp: bindE_eq_Inr)
  then have "list_all2 (\<lambda>c ch. commit_change c = Inr ch) cs' (changes ev)"
    by (simp add: mapE_Inr_iff)
  with ch obtain c' where "commit_change c' = Inr ch"
    by (auto simp: in_set_conv_nth list_all2_conv_all_nth)
  from commit_change_Inr(5)[OF this] show "\<exists>a. author ch = Some a \<and> actor_id a = []" .
next
  assume h: "py_get payload ''commits'' (JList []) = Inr (JList cs) \<and> c \<in> set cs
        \<and> py_index c ''author'' = Inr (JObj au)
        \<and> (map_of au ''username'' = None \<or> map_of au ''name'' = None
             \<or> map_of au ''email'' = None)"
  then have commits: "py_get payload ''commits'' (JList []) = Inr (JList cs)"
    and cin: "c \<in> set cs"
    and au: "py_index c ''author'' = Inr (JObj au)"
    and miss: "map_of au ''username'' = None \<or> map_of au ''name'' = None
               \<or> map_of au ''email'' = None"
    by simp_all
  from commit_change_raises[OF au miss] obtain e where e: "commit_change c = Inl e" ..
  from mapE_raises[of c cs commit_change e, OF cin e] obtain e' where "mapE commit_change cs = Inl e'" ..
  with commits have raises: "map_push_event rt payload delivery_id = Inl e'"
    unfolding map_push_event_def by simp
  then show "\<exists>e. map_push_event rt payload delivery_id = Inl e" by blast
  from raises show "\<exists>e. process_webhook (GitHubWebhookHandler_init s) rt ''push'' payload
                    delivery_id = Inl e"
    by (simp add: process_webhook_push)
qed

theorem push_change_author_witness:
  "map_option actor_id (author (changes (projr (map_push_event sample_runtime
        (push_payload [sample_commit sample_author]) ''d1'')) ! 0)) = Some []
   \<and> isl (map_push_event sample_runtime
        (push_payload [sample_commit [(''username'', JStr ''testuser''),
                                      (''name'', JStr ''Test User'')]]) ''d1'')
   \<and> isl (process_webhook (GitHubWebhookHandler_init ''test-secret'') sample_runtime ''push''
        (push_payload [sample_commit [(''username'', JStr ''testuser''),
                                      (''name'', JStr ''Test User'')]]) ''d1'')"
proof -
  let ?au = "[(''username'', JStr ''testuser''), (''name'', JStr ''Test User'')]"
  obtain ev1 where run1:
    "map_push_event sample_runtime (push_payload [sample_commit sample_author]) ''d1'' = Inr ev1"
    using push_sample_returns by blast
  have "py_get (push_payload [sample_commit sample_author]) ''commits'' (JList [])
          = Inr (JList [sample_commit sample_author])"
    by (simp add: push_payload_def)
  from map_push_event_changes[OF run1 this]
  have "list_all2 (\<lambda>c ch. commit_change c = Inr ch) [sample_commit sample_author] (changes ev1)"
    by (simp add: mapE_Inr_iff)
  then have len: "length (changes ev1) = 1"
    by (auto simp: list_all2_Cons1)
  then have "changes ev1 ! 0 \<in> set (changes ev1)" by simp
  with push_change_author[of sample_runtime "push_payload [sample_commit sample_author]"
      "''d1''" ev1] run1
  have "\<exists>a. author (changes ev1 ! 0) = Some a \<and> actor_id a = []" by blast
  with run1 have c1: "map_option actor_id (author (changes (projr (map_push_event sample_runtime
        (push_payload [sample_commit sample_author]) ''d1'')) ! 0)) = Some []"
    by auto
  have pre: "py_get (push_payload [sample_commit ?au]) ''commits'' (JList [])
        = Inr (JList [sample_commit ?au]) \<and> sample_commit ?au \<in> set [sample_commit ?au]
        \<and> py_index (sample_commit ?au) ''author'' = Inr (JObj ?au)
        \<and> (map_of ?au ''username'' = None \<or> map_of ?au ''name'' = None
             \<or> map_of ?au ''email'' = None)"
    by (simp add: push_payload_def sample_commit_def)
  from push_change_author[of sample_runtime "push_payload [sample_commit ?au]" "''d1''" _
      "[sample_commit ?au]" "sample_commit ?au" ?au "''test-secret''"] pre
  have "(\<exists>e. map_push_event sample_runtime (push_payload [sample_commit ?au]) ''d1'' = Inl e)
      \<and> (\<exists>e. process_webhook (GitHubWebhookHandler_init ''test-secret'') sample_runtime
               ''push'' (push_payload [sample_commit ?au]) ''d1'' = Inl e)"
    by blast
  then have c2: "isl (map_push_event sample_runtime (push_payload [sample_commit ?au]) ''d1'')
      \<and> isl (process_webhook (GitHubWebhookHandler_init ''test-secret'') sample_runtime
               ''push'' (push_payload [sample_commit ?au]) ''d1'')"
    by auto
  from c1 c2 show ?thesis by blast
qed

section \<open>Issue comments: pull-request comment or issue comment\<close>

text \<open>
  C4. Whenever \<open>map_issue_comment_event\<close> returns an event, the \<^verbatim>\<open>issue\<close> of the payload
  is a dict, and the type of the event is \<open>PR_COMMENT\<close> if and only if that dict has the
  key \<^verbatim>\<open>pull_request\<close>, and \<open>ISSUE_COMMENT\<close> if and only if it has not.
\<close>

theorem issue_comment_event_type:
  assumes ret: "map_issue_comment_event rt payload delivery_id = Inr ev"
    and issue: "py_index payload ''issue'' = Inr issue"
  shows "\<exists>kvs. issue = JObj kvs \<and>
     (event_type ev = PR_COMMENT) = (''pull_request'' \<in> fst ` set kvs) \<and>
     (event_type ev = ISSUE_COMMENT) = (''pull_request'' \<notin> fst ` set kvs)"
proof -
  from ret issue obtain is_pr num where
    c: "py_contains ''pull_request'' issue = Inr is_pr" and
    n: "py_index issue ''number'' = Inr num" and
    ty: "event_type ev = (if is_pr then PR_COMMENT else ISSUE_COMMENT)"
    unfolding map_issue_comment_event_def by (auto simp: bindE_eq_Inr)
  from py_index_Inr[OF n] obtain kvs where kvs: "issue = JObj kvs" by blast
  with c have "is_pr = (''pull_request'' \<in> fst ` set kvs)" by auto
  with ty kvs show ?thesis by auto
qed

lemma issue_comment_sample_returns:
  "\<exists>ev. map_issue_comment_event sample_runtime (issue_comment_payload linkage) d = Inr ev"
  by (simp add: mapper_defs sample_defs del: sample_str.simps split: option.splits)

theorem issue_comment_event_type_witness:
  "event_type (projr (map_issue_comment_event sample_runtime
       (issue_comment_payload [(''pull_request'', JObj [])]) ''d1'')) = PR_COMMENT
   \<and> event_type (projr (map_issue_comment_event sample_runtime
       (issue_comment_payload []) ''d1'')) = ISSUE_COMMENT"
proof -
  have issue: "py_index (issue_comment_payload linkage) ''issue''
                 = Inr (JObj (issue_fields @ linkage))" for linkage
    by (simp add: issue_comment_payload_def)
  have nolink: "''pull_request'' \<notin> fst ` set issue_fields"
    by (simp add: issue_fields_def)
  obtain ev1 where run1: "map_issue_comment_event sample_runtime
       (issue_comment_payload [(''pull_request'', JObj [])]) ''d1'' = Inr ev1"
    using issue_comment_sample_returns by blast
  from issue_comment_event_type[OF run1 issue]
  have "event_type ev1 = PR_COMMENT" by simp
  with run1 have c1: "event_type (projr (map_issue_comment_event sample_runtime
       (issue_comment_payload [(''pull_request'', JObj [])]) ''d1'')) = PR_COMMENT"
    by simp
  obtain ev2 where run2: "map_issue_comment_event sample_runtime
       (issue_comment_payload []) ''d1'' = Inr ev2"
    using issue_comment_sample_returns by blast
  from issue_comment_event_type[OF run2 issue] nolink
  have "event_type ev2 = ISSUE_COMMENT" by simp
  with run2 have c2: "event_type (projr (map_issue_comment_event sample_runtime
       (issue_comment_payload []) ''d1'')) = ISSUE_COMMENT"
    by simp
  from c1 c2 show ?thesis by (rule conjI)
qed

section \<open>Every mapper: the id is the delivery id, the source is github\<close>

lemma map_push_event_id_source:
  "map_push_event rt payload d = Inr ev \<Longrightarrow> event_id ev = d \<and> source ev = ''github''"
  unfolding map_push_event_def by (auto simp: bindE_eq_Inr)

lemma map_pull_request_event_id_source:
  "map_pull_request_event rt payload d = Inr ev
     \<Longrightarrow> event_id ev = d \<and> source ev = ''github''"
  unfolding map_pull_request_event_def by (auto simp: bindE_eq_Inr)

lemma map_issue_event_id_source:
  "map_issue_event rt payload d = Inr ev \<Longrightarrow> event_id ev = d \<and> source ev = ''github''"
  unfolding map_issue_event_def by (auto simp: bindE_eq_Inr)

lemma map_issue_comment_event_id_source:
  "map_issue_comment_event rt payload d = Inr ev
     \<Longrightarrow> event_id ev = d \<and> source ev = ''github''"
  unfolding map_issue_comment_event_def by (auto simp: bindE_eq_Inr)

lemma map_pull_request_review_event_id_source:
  "map_pull_request_review_event rt payload d = Inr ev
     \<Longrightarrow> event_id ev = d \<and> source ev = ''github''"
  unfolding map_pull_request_review_event_def by (auto simp: bindE_eq_Inr)

lemma map_release_event_id_source:
  "map_release_event rt payload d = Inr ev \<Longrightarrow> event_id ev = d \<and> source ev = ''github''"
  unfolding map_release_event_def by (auto simp: bindE_eq_Inr)

lemma registered_mapper:
  assumes "map_of (event_mappers (GitHubWebhookHandler_init s)) category = Some mp"
  shows "category = ''push'' \<and> mp = map_push_event
       \<or> category = ''pull_request'' \<and> mp = map_pull_request_event
       \<or> category = ''issues'' \<and> mp = map_issue_event
       \<or> category = ''issue_comment'' \<and> mp = map_issue_comment_event
       \<or> category = ''pull_request_review'' \<and> mp = map_pull_request_review_event
       \<or> category = ''release'' \<and> mp = map_release_event"
  using assms unfolding GitHubWebhookHandler_init_def
  by (simp split: if_splits)

lemma issue_sample_returns:
  "\<exists>ev. map_issue_event sample_runtime issue_payload d = Inr ev"
  by (simp add: mapper_defs sample_defs del: sample_str.simps)

lemma review_sample_returns:
  "\<exists>ev. map_pull_request_review_event sample_runtime (review_payload body_field) d = Inr ev"
  by (simp add: mapper_defs sample_defs del: sample_str.simps split: option.splits)

lemma release_sample_returns:
  "\<exists>ev. map_release_event sample_runtime release_payload d = Inr ev"
  by (simp add: mapper_defs sample_defs del: sample_str.simps)

lemma sample_registry:
  "map_of (event_mappers (GitHubWebhookHandler_init s)) ''push'' = Some map_push_event"
  "map_of (event_mappers (GitHubWebhookHandler_init s)) ''pull_request''
     = Some map_pull_request_event"
  "map_of (event_mappers (GitHubWebhookHandler_init s)) ''issues'' = Some map_issue_event"
  "map_of (event_mappers (GitHubWebhookHandler_init s)) ''issue_comment''
     = Some map_issue_comment_event"
  "map_of (event_mappers (GitHubWebhookHandler_init s)) ''pull_request_review''
     = Some map_pull_request_review_event"
  "map_of (event_mappers (GitHubWebhookHandler_init s)) ''release'' = Some map_release_event"
  by (simp_all add: GitHubWebhookHandler_init_def)

lemma registered_id_source:
  assumes reg: "map_of (event_mappers (GitHubWebhookHandler_init s)) category = Some mp"
    and ret: "mp rt payload delivery_id = Inr ev"
  shows "category \<in> {''push'', ''pull_request'', ''issues'', ''issue_comment'',
                     ''pull_request_review'', ''release''}
         \<and> event_id ev = delivery_id \<and> source ev = ''github''"
proof -
  from registered_mapper[OF reg] show ?thesis
  proof (elim disjE conjE)
    assume "category = ''push''" and "mp = map_push_event"
    with ret map_push_event_id_source[of rt payload delivery_id ev]
    show ?thesis by simp
  next
    assume "category = ''pull_request''" and "mp = map_pull_request_event"
    with ret map_pull_request_event_id_source[of rt payload delivery_id ev]
    show ?thesis by simp
  next
    assume "category = ''issues''" and "mp = map_issue_event"
    with ret map_issue_event_id_source[of rt payload delivery_id ev]
    show ?thesis by simp
  next
    assume "category = ''issue_comment''" and "mp = map_issue_comment_event"
    with ret map_issue_comment_event_id_source[of rt payload delivery_id ev]
    show ?thesis by simp
  next
    assume "category = ''pull_request_review''" and "mp = map_pull_request_review_event"
    with ret map_pull_request_review_event_id_source[of rt payload delivery_id ev]
    show ?thesis by simp
  next
    assume "category = ''release''" and "mp = map_release_event"
    with ret map_release_event_id_source[of rt payload delivery_id ev]
    show ?thesis by simp
  qed
qed

lemma process_webhook_registered:
  "map_of (event_mappers h) category = Some mp \<Longrightarrow> mp rt payload d = Inr ev
     \<Longrightarrow> process_webhook h rt category payload d = Inr (Some ev)"
  by (simp add: process_webhook_def)

text \<open>
  C6. The registry \<open>event_mappers\<close> holds exactly the six categories push, pull_request,
  issues, issue_comment, pull_request_review and release. For every registered category
  and every payload on which its mapper returns an event, the id of the event is the
  delivery id and its source is \<^verbatim>\<open>github\<close>. And each of the six mappers does return an
  event, through \<open>process_webhook\<close>, with that id and that source: on the sample payload of
  its category.
\<close>

theorem mapped_event_id_and_source:
  "map fst (event_mappers (GitHubWebhookHandler_init s))
     = [''push'', ''pull_request'', ''issues'', ''issue_comment'', ''pull_request_review'',
        ''release'']
   \<and> (map_of (event_mappers (GitHubWebhookHandler_init s)) category = Some mp
        \<and> mp rt payload delivery_id = Inr ev
      \<longrightarrow> category \<in> {''push'', ''pull_request'', ''issues'', ''issue_comment'',
                       ''pull_request_review'', ''release''}
          \<and> event_id ev = delivery_id \<and> source ev = ''github'')
   \<and> (\<exists>e. process_webhook (GitHubWebhookHandler_init s) sample_runtime ''push''
             (push_payload [sample_commit sample_author]) delivery_id = Inr (Some e)
           \<and> event_id e = delivery_id \<and> source e = ''github'')
   \<and> (\<exists>e. process_webhook (GitHubWebhookHandler_init s) sample_runtime ''pull_request''
             (pull_request_payload (JStr ''opened'') []) delivery_id = Inr (Some e)
           \<and> event_id e = delivery_id \<and> source e = ''github'')
   \<and> (\<exists>e. process_webhook (GitHubWebhookHandler_init s) sample_runtime ''issues''
             issue_payload delivery_id = Inr (Some e)
           \<and> event_id e = delivery_id \<and> source e = ''github'')
   \<and> (\<exists>e. process_webhook (GitHubWebhookHandler_init s) sample_runtime ''issue_comment''
             (issue_comment_payload []) delivery_id = Inr (Some e)
           \<and> event_id e = delivery_id \<and> source e = ''github'')
   \<and> (\<exists>e. process_webhook (GitHubWebhookHandler_init s) sample_runtime
             ''pull_request_review'' (review_payload []) delivery_id = Inr (Some e)
           \<and> event_id e = delivery_id \<and> source e = ''github'')
   \<and> (\<exists>e. process_webhook (GitHubWebhookHandler_init s) sample_runtime ''release''
             release_payload delivery_id = Inr (Some e)
           \<and> event_id e = delivery_id \<and> source e = ''github'')"
proof -
  let ?h = "GitHubWebhookHandler_init s"
  have registry: "map fst (event_mappers ?h)
     = [''push'', ''pull_request'', ''issues'', ''issue_comment'', ''pull_request_review'',
        ''release'']"
    by (simp add: GitHubWebhookHandler_init_def)
  have general: "map_of (event_mappers ?h) category = Some mp
        \<and> mp rt payload delivery_id = Inr ev
      \<longrightarrow> category \<in> {''push'', ''pull_request'', ''issues'', ''issue_comment'',
                       ''pull_request_review'', ''release''}
          \<and> event_id ev = delivery_id \<and> source ev = ''github''"
    using registered_id_source[of s category mp rt payload delivery_id ev] by simp
  have run: "\<exists>e. process_webhook ?h sample_runtime c p delivery_id = Inr (Some e)
               \<and> event_id e = delivery_id \<and> source e = ''github''"
    if reg: "map_of (event_mappers ?h) c = Some m"
      and ret: "\<exists>e. m sample_runtime p delivery_id = Inr e" for c m p
  proof -
    from ret obtain e where e: "m sample_runtime p delivery_id = Inr e" ..
    from registered_id_source[OF reg e] process_webhook_registered[OF reg e]
    show ?thesis by simp
  qed
  note runs =
    run[OF sample_registry(1) push_sample_returns[of delivery_id]]
    run[OF sample_registry(2) pull_request_sample_returns[of "''opened''" "[]" delivery_id]]
    run[OF sample_registry(3) issue_sample_returns[of delivery_id]]
    run[OF sample_registry(4) issue_comment_sample_returns[of "[]" delivery_id]]
    run[OF sample_registry(5) review_sample_returns[of "[]" delivery_id]]
    run[OF sample_registry(6) release_sample_returns[of delivery_id]]
  from registry general runs show ?thesis by (intro conjI)
qed

theorem mapped_event_id_and_source_witness:
  "event_id (projr (map_push_event sample_runtime
       (push_payload [sample_commit sample_author]) ''d1'')) = ''d1''
   \<and> source (projr (map_push_event sample_runtime
       (push_payload [sample_commit sample_author]) ''d1'')) = ''github''
   \<and> event_id (projr (map_pull_request_event sample_runtime
       (pull_request_payload (JStr ''opened'') []) ''d2'')) = ''d2''
   \<and> source (projr (map_pull_request_event sample_runtime
       (pull_request_payload (JStr ''opened'') []) ''d2'')) = ''github''
   \<and> event_id (projr (map_issue_event sample_runtime issue_payload ''d3'')) = ''d3''
   \<and> source (projr (map_issue_event sample_runtime issue_payload ''d3'')) = ''github''
   \<and> event_id (projr (map_issue_comment_event sample_runtime
       (issue_comment_payload []) ''d4'')) = ''d4''
   \<and> source (projr (map_issue_comment_event sample_runtime
       (issue_comment_payload []) ''d4'')) = ''github''
   \<and> event_id (projr (map_pull_request_review_event sample_runtime
       (review_payload []) ''d5'')) = ''d5''
   \<and> source (projr (map_pull_request_review_event sample_runtime
       (review_payload []) ''d5'')) = ''github''
   \<and> event_id (projr (map_release_event sample_runtime release_payload ''d6'')) = ''d6''
   \<and> source (projr (map_release_event sample_runtime release_payload ''d6'')) = ''github''"
proof -
  have use: "event_id (projr (m sample_runtime p d)) = d
             \<and> source (projr (m sample_runtime p d)) = ''github''"
    if reg: "map_of (event_mappers (GitHubWebhookHandler_init ''test-secret'')) c = Some m"
      and ret: "\<exists>e. m sample_runtime p d = Inr e" for c m p d
  proof -
    from ret obtain e where e: "m sample_runtime p d = Inr e" ..
    from mapped_event_id_and_source[of "''test-secret''" c m sample_runtime p d e] reg e
    show ?thesis by simp
  qed
  note all =
    use[OF sample_registry(1) push_sample_returns[of "''d1''"]]
    use[OF sample_registry(2) pull_request_sample_returns[of "''opened''" "[]" "''d2''"]]
    use[OF sample_registry(3) issue_sample_returns[of "''d3''"]]
    use[OF sample_registry(4) issue_comment_sample_returns[of "[]" "''d4''"]]
    use[OF sample_registry(5) review_sample_returns[of "[]" "''d5''"]]
    use[OF sample_registry(6) release_sample_returns[of "''d6''"]]
  from all show ?thesis by (intro conjI) simp_all
qed

section \<open>The composite publisher\<close>

lemma publish_results_returning:
  "publish_results (map returning sinks) ev w
     = (Inr (fst (invoke_all sinks ev w)), snd (invoke_all sinks ev w))"
  by (induction sinks arbitrary: w) (auto simp: returning_def split: prod.splits)

lemma length_invoke_all: "length (fst (invoke_all sinks ev w)) = length sinks"
proof (induction sinks arbitrary: w)
  case Nil
  show ?case by simp
next
  case (Cons snk sinks)
  obtain b w' where first: "snk ev w = (b, w')"
    by (cases "snk ev w")
  obtain bs w'' where rest: "invoke_all sinks ev w' = (bs, w'')"
    by (cases "invoke_all sinks ev w'")
  from Cons.IH[of w'] rest have "length bs = length sinks" by simp
  with first rest show ?case by simp
qed

text \<open>A publisher that raises ends the composite: the publishers after it are not
  called.\<close>

lemma publish_results_raises:
  "publish_results (recording_publisher ''first'' True # MessageQueuePublisher_publish
                      # recording_publisher ''last'' True # ps) ev []
     = (Inl (NotImplementedError ''Message queue publishing not yet implemented''),
        [''first''])"
  by (simp add: recording_publisher_def MessageQueuePublisher_publish_def)

text \<open>
  C5. For every list of sinks and every event, \<open>MultiPublisher_publish\<close> calls every sink
  in list order, whatever the earlier ones returned (it does what \<open>invoke_all\<close> does,
  which gives one boolean per sink), and returns true if and only if every sink returned
  true. With the sinks ok, fail, ok all three are called and the result is false; with
  ok, ok the result is true.
\<close>

theorem multi_publisher_invokes_all:
  "MultiPublisher_publish (map returning sinks) ev w
     = (Inr (list_all id (fst (invoke_all sinks ev w))), snd (invoke_all sinks ev w))
   \<and> length (fst (invoke_all sinks ev w)) = length sinks
   \<and> MultiPublisher_publish
        [recording_publisher ''ok1'' True, recording_publisher ''fail'' False,
         recording_publisher ''ok2'' True] ev []
       = (Inr False, [''ok1'', ''fail'', ''ok2''])
   \<and> MultiPublisher_publish
        [recording_publisher ''ok1'' True, recording_publisher ''ok2'' True] ev []
       = (Inr True, [''ok1'', ''ok2''])"
  by (simp add: MultiPublisher_publish_def publish_results_returning length_invoke_all
      recording_publisher_def)

section \<open>The signature check\<close>

lemma verify_signature_rejects:
  "signature = [] \<or> take 7 signature \<noteq> ''sha256=''
     \<Longrightarrow> verify_signature h rt payload signature = Inr False"
  by (simp add: verify_signature_def)

lemma verify_signature_ascii:
  assumes "take 7 signature = ''sha256=''"
    and "ascii_only (drop 7 signature)"
    and "ascii_only (hmac_sha256_hexdigest rt (secret h) payload)"
  shows "verify_signature h rt payload signature
           = Inr (hmac_sha256_hexdigest rt (secret h) payload = drop 7 signature)"
  using assms by (auto simp: verify_signature_def compare_digest_def)

text \<open>
  C2, at the input where the code leaves the claim. The header
  \<^verbatim>\<open>sha256=\<close> followed by the character U+00E9 has the prefix, so the digest is compared
  with \<^verbatim>\<open>hmac.compare_digest\<close>, which raises \<^verbatim>\<open>TypeError\<close> on a str with a character
  that is not ASCII: \<open>verify_signature\<close> raises instead of returning false, whatever the
  body and the secret. \<open>handle_request\<close> passes the exception on, and the endpoint answers
  500.
\<close>

theorem verify_signature_raises_on_non_ascii:
  "verify_signature h rt payload (''sha256='' @ [CHR 0xE9]) = Inl TypeError
   \<and> handle_request h rt [(''X-Hub-Signature-256'', ''sha256='' @ [CHR 0xE9])] payload
       = Inl TypeError
   \<and> status (error_response TypeError) = 500"
  by (simp add: verify_signature_def compare_digest_def ascii_only_def handle_request_def
      error_response_def)

section \<open>The outcomes of handle_request\<close>








section \<open>Metadata: what stays unset and what gets a default\<close>

lemmas unset_defs = unset_outside_def optional_fields_def EventMetadata_default_def

lemma map_push_event_metadata:
  assumes "map_push_event rt payload d = Inr ev"
  shows "unset_outside [''ref'', ''before'', ''after'', ''created'', ''deleted'', ''forced'',
                        ''base_ref'', ''compare_url''] (metadata ev)"
    and "py_get payload ''created'' (JBool False) = Inr (created (metadata ev))"
    and "py_get payload ''deleted'' (JBool False) = Inr (deleted (metadata ev))"
    and "py_get payload ''forced'' (JBool False) = Inr (forced (metadata ev))"
  using assms unfolding map_push_event_def
  by (auto simp: bindE_eq_Inr unset_defs)

lemma map_pull_request_event_metadata:
  assumes "map_pull_request_event rt payload d = Inr ev"
  shows "unset_outside [''pr_number'', ''pr_title'', ''pr_state'', ''pr_url'', ''pr_merged'',
                        ''pr_draft'', ''pr_base_ref'', ''pr_head_ref'', ''pr_author'',
                        ''action'', ''labels''] (metadata ev)"
    and "\<exists>pr. py_index payload ''pull_request'' = Inr pr
           \<and> py_get pr ''merged'' (JBool False) = Inr (pr_merged (metadata ev))
           \<and> py_get pr ''draft'' (JBool False) = Inr (pr_draft (metadata ev))"
  using assms unfolding map_pull_request_event_def
  by (auto simp: bindE_eq_Inr unset_defs)

lemma map_issue_event_metadata:
  assumes "map_issue_event rt payload d = Inr ev"
  shows "unset_outside [''issue_number'', ''issue_title'', ''issue_state'', ''issue_url'',
                        ''issue_author'', ''action'', ''labels'', ''assignees''] (metadata ev)"
  using assms unfolding map_issue_event_def
  by (auto simp: bindE_eq_Inr unset_defs)

lemma map_issue_comment_event_metadata:
  assumes "map_issue_comment_event rt payload d = Inr ev"
  shows "unset_outside [''comment_id'', ''comment_body'', ''comment_url'', ''issue_number'',
                        ''issue_title'', ''action''] (metadata ev)"
  using assms unfolding map_issue_comment_event_def
  by (auto simp: bindE_eq_Inr unset_defs)

lemma map_pull_request_review_event_metadata:
  assumes "map_pull_request_review_event rt payload d = Inr ev"
  shows "unset_outside [''review_id'', ''review_state'', ''review_body'', ''review_url'',
                        ''pr_number'', ''pr_title'', ''action''] (metadata ev)"
    and "\<exists>rv. py_index payload ''review'' = Inr rv
           \<and> py_get rv ''body'' (JStr []) = Inr (review_body (metadata ev))"
  using assms unfolding map_pull_request_review_event_def
  by (auto simp: bindE_eq_Inr unset_defs)

lemma map_release_event_metadata:
  assumes "map_release_event rt payload d = Inr ev"
  shows "unset_outside [''release_id'', ''release_name'', ''release_tag'', ''release_url'',
                        ''release_draft'', ''release_prerelease'', ''action''] (metadata ev)"
  using assms unfolding map_release_event_def
  by (auto simp: bindE_eq_Inr unset_defs)

text \<open>
  C8 as the claim states it fails: on the sample pull-request payload, which has no
  \<^verbatim>\<open>merged\<close> and no \<^verbatim>\<open>draft\<close> key, the mapper returns an event whose \<open>pr_merged\<close> and
  \<open>pr_draft\<close> are \<^verbatim>\<open>False\<close>, not \<^verbatim>\<open>None\<close>; on the sample review payload without a
  \<^verbatim>\<open>body\<close> the \<open>review_body\<close> is the empty string, not \<^verbatim>\<open>None\<close>.
\<close>

theorem metadata_defaults_counterexample:
  "\<not> isl (map_pull_request_event sample_runtime
            (pull_request_payload (JStr ''opened'') []) ''test-delivery-id'')
   \<and> pr_merged (metadata (projr (map_pull_request_event sample_runtime
        (pull_request_payload (JStr ''opened'') []) ''test-delivery-id''))) = JBool False
   \<and> pr_draft (metadata (projr (map_pull_request_event sample_runtime
        (pull_request_payload (JStr ''opened'') []) ''test-delivery-id''))) = JBool False
   \<and> \<not> isl (map_pull_request_review_event sample_runtime (review_payload [])
            ''test-delivery-id'')
   \<and> review_body (metadata (projr (map_pull_request_review_event sample_runtime
        (review_payload []) ''test-delivery-id''))) = JStr []
   \<and> JBool False \<noteq> JNull \<and> JStr [] \<noteq> JNull"
  by (simp add: mapper_defs sample_defs del: sample_str.simps)

text \<open>
  C8, amended. For every registered category and every payload on which its mapper
  returns an event, every optional metadata field that is not among the keyword arguments
  of the mapper's \<^verbatim>\<open>EventMetadata\<close> call is \<^verbatim>\<open>None\<close>. A field the mapper reads with a
  default has that default, not \<^verbatim>\<open>None\<close>, when the payload lacks the key: \<open>pr_merged\<close>
  and \<open>pr_draft\<close> are what \<^verbatim>\<open>pr.get(key, False)\<close> gives, \<open>review_body\<close> is what
  \<^verbatim>\<open>review.get('body', '')\<close> gives, and \<open>created\<close>, \<open>deleted\<close>, \<open>forced\<close> of a push are
  what \<^verbatim>\<open>payload.get(key, False)\<close> gives.
\<close>

theorem metadata_unset_outside_category:
  assumes reg: "map_of (event_mappers (GitHubWebhookHandler_init s)) category = Some mp"
    and ret: "mp rt payload d = Inr ev"
  shows "(\<exists>ks. map_of metadata_keywords category = Some ks \<and> unset_outside ks (metadata ev))
     \<and> (category = ''pull_request'' \<longrightarrow>
          (\<exists>pr. py_index payload ''pull_request'' = Inr pr
             \<and> py_get pr ''merged'' (JBool False) = Inr (pr_merged (metadata ev))
             \<and> py_get pr ''draft'' (JBool False) = Inr (pr_draft (metadata ev))))
     \<and> (category = ''pull_request_review'' \<longrightarrow>
          (\<exists>rv. py_index payload ''review'' = Inr rv
             \<and> py_get rv ''body'' (JStr []) = Inr (review_body (metadata ev))))
     \<and> (category = ''push'' \<longrightarrow>
          py_get payload ''created'' (JBool False) = Inr (created (metadata ev))
          \<and> py_get payload ''deleted'' (JBool False) = Inr (deleted (metadata ev))
          \<and> py_get payload ''forced'' (JBool False) = Inr (forced (metadata ev)))"
proof -
  from registered_mapper[OF reg] show ?thesis
  proof (elim disjE conjE)
    assume c: "category = ''push''" and m: "mp = map_push_event"
    from ret m have r: "map_push_event rt payload d = Inr ev" by simp
    from map_push_event_metadata[OF r] c show ?thesis
      by (simp add: metadata_keywords_def)
  next
    assume c: "category = ''pull_request''" and m: "mp = map_pull_request_event"
    from ret m have r: "map_pull_request_event rt payload d = Inr ev" by simp
    from map_pull_request_event_metadata[OF r] c show ?thesis
      by (simp add: metadata_keywords_def)
  next
    assume c: "category = ''issues''" and m: "mp = map_issue_event"
    from ret m have r: "map_issue_event rt payload d = Inr ev" by simp
    from map_issue_event_metadata[OF r] c show ?thesis
      by (simp add: metadata_keywords_def)
  next
    assume c: "category = ''issue_comment''" and m: "mp = map_issue_comment_event"
    from ret m have r: "map_issue_comment_event rt payload d = Inr ev" by simp
    from map_issue_comment_event_metadata[OF r] c show ?thesis
      by (simp add: metadata_keywords_def)
  next
    assume c: "category = ''pull_request_review''" and m: "mp = map_pull_request_review_event"
    from ret m have r: "map_pull_request_review_event rt payload d = Inr ev" by simp
    from map_pull_request_review_event_metadata[OF r] c show ?thesis
      by (simp add: metadata_keywords_def)
  next
    assume c: "category = ''release''" and m: "mp = map_release_event"
    from ret m have r: "map_release_event rt payload d = Inr ev" by simp
    from map_release_event_metadata[OF r] c show ?thesis
      by (simp add: metadata_keywords_def)
  qed
qed

theorem metadata_unset_outside_category_witness:
  "pr_merged (metadata (projr (map_pull_request_event sample_runtime
        (pull_request_payload (JStr ''opened'') []) ''test-delivery-id''))) = JBool False
   \<and> issue_number (metadata (projr (map_pull_request_event sample_runtime
        (pull_request_payload (JStr ''opened'') []) ''test-delivery-id''))) = JNull
   \<and> review_body (metadata (projr (map_pull_request_event sample_runtime
        (pull_request_payload (JStr ''opened'') []) ''test-delivery-id''))) = JNull"
proof -
  obtain ev where run: "map_pull_request_event sample_runtime
        (pull_request_payload (JStr ''opened'') []) ''test-delivery-id'' = Inr ev"
    using pull_request_sample_returns by blast
  from metadata_unset_outside_category[OF sample_registry(2)[of "''test-secret''"] run]
  have unset: "unset_outside [''pr_number'', ''pr_title'', ''pr_state'', ''pr_url'',
                  ''pr_merged'', ''pr_draft'', ''pr_base_ref'', ''pr_head_ref'', ''pr_author'',
                  ''action'', ''labels''] (metadata ev)"
    and merged: "\<exists>pr. py_index (pull_request_payload (JStr ''opened'') []) ''pull_request''
                        = Inr pr
                    \<and> py_get pr ''merged'' (JBool False) = Inr (pr_merged (metadata ev))
                    \<and> py_get pr ''draft'' (JBool False) = Inr (pr_draft (metadata ev))"
    by (simp_all add: metadata_keywords_def)
  from merged have "pr_merged (metadata ev) = JBool False"
    by (simp add: pull_request_payload_def pull_request_fields_def)
  moreover from unset have "issue_number (metadata ev) = JNull"
    by (simp add: unset_outside_def optional_fields_def)
  moreover from unset have "review_body (metadata ev) = JNull"
    by (simp add: unset_outside_def optional_fields_def)
  ultimately show ?thesis using run by simp
qed

section \<open>Serialization\<close>

lemma json_compatible_of_json: "json_compatible (of_json v)"
  by (induction v) (auto simp: list_all_iff)

text \<open>The parts of \<^verbatim>\<open>to_dict\<close> that are rendered as the claim says: the type of the
  event as its string code, the actor, the repository and the metadata as dicts of
  payload values, the changes in their order.\<close>

lemma to_dict_entries:
  "\<exists>kvs. to_dict ev = PDict kvs
     \<and> map fst kvs = [''id'', ''type'', ''source'', ''timestamp'', ''actor'', ''repository'',
                      ''metadata'', ''changes'', ''raw_payload'']
     \<and> map_of kvs ''type'' = Some (PStr (EventType_value (event_type ev)))
     \<and> map_of kvs ''actor'' = Some (PDict (Actor_dict (actor ev)))
     \<and> map_of kvs ''repository'' = Some (PDict (Repository_dict (repository ev)))
     \<and> map_of kvs ''metadata'' = Some (PDict (EventMetadata_dict (metadata ev)))
     \<and> map_of kvs ''changes'' = Some (PList (map (\<lambda>c. PDict (Change_dict c)) (changes ev)))"
  by (simp add: to_dict_def)

lemma to_dict_without_changes:
  "changes ev = [] \<Longrightarrow> json_compatible (to_dict ev)"
  by (simp add: to_dict_def Actor_dict_def Repository_dict_def EventMetadata_dict_def
      optional_fields_def json_compatible_of_json list_all_iff)

text \<open>
  C9, at the input where the code leaves the claim. The \<^verbatim>\<open>__dict__\<close> of a change holds
  the \<^verbatim>\<open>ChangeType\<close> member under \<^verbatim>\<open>type\<close> (not its string code) and the \<^verbatim>\<open>Actor\<close>
  instance under \<^verbatim>\<open>author\<close> (not a dict), so the result of \<^verbatim>\<open>to_dict\<close> for an event
  with at least one change is not JSON-compatible; this holds for the event mapped from
  the push payload of the tests.
\<close>

theorem to_dict_change_not_flattened:
  "map_of (Change_dict ch) ''type'' = Some (PChangeType (change_type ch))
   \<and> map_of (Change_dict (ch\<lparr>author := Some a\<rparr>)) ''author'' = Some (PActor a)
   \<and> json_compatible (to_dict (ev\<lparr>changes := ch # chs\<rparr>)) = False
   \<and> isl (map_push_event sample_runtime (push_payload [sample_commit sample_author])
            ''test-delivery-id'') = False
   \<and> json_compatible (to_dict (projr (map_push_event sample_runtime
        (push_payload [sample_commit sample_author]) ''test-delivery-id''))) = False"
proof -
  have general: "json_compatible (to_dict (e\<lparr>changes := c # cs\<rparr>)) = False" for e c cs
    by (simp add: to_dict_def Change_dict_def)
  obtain ev1 where run: "map_push_event sample_runtime
        (push_payload [sample_commit sample_author]) ''test-delivery-id'' = Inr ev1"
    using push_sample_returns by blast
  have "py_get (push_payload [sample_commit sample_author]) ''commits'' (JList [])
          = Inr (JList [sample_commit sample_author])"
    by (simp add: push_payload_def)
  from map_push_event_changes[OF run this]
  have "list_all2 (\<lambda>c ch. commit_change c = Inr ch) [sample_commit sample_author] (changes ev1)"
    by (simp add: mapE_Inr_iff)
  then obtain c1 where "changes ev1 = [c1]"
    by (auto simp: list_all2_Cons1)
  then have "ev1 = ev1\<lparr>changes := c1 # []\<rparr>" by simp
  with general[where e=ev1 and c=c1 and cs="[]"] have "json_compatible (to_dict ev1) = False" by simp
  with run general show ?thesis
    by (simp add: Change_dict_def)
qed

end
